theory Spec2Isabelle
  imports Complex_Main
begin

section \<open>Errors, paths and random draws\<close>

text \<open>
  Every \<^verbatim>\<open>raise\<close> of the Python sources, and every exception a library call of
  theirs throws, is a value of \<open>error\<close>; a function that can raise returns
  \<open>error + 'a\<close> with \<open>Inl\<close> for the exception.
\<close>

datatype error =
    RuntimeError string
  | ValueError string
  | AssertionError string
  | IndexError
  | KeyError
  | ZeroDivisionError
  | TypeError string
  | OSError string
  | CollaboratorError string

text \<open>A \<^verbatim>\<open>pathlib.Path\<close> is the list of its components.\<close>

type_synonym path = "string list"

text \<open>
  \<^verbatim>\<open>Path.relative_to\<close>: the components left after the other path, \<^verbatim>\<open>ValueError\<close>
  (here \<open>None\<close>) when the other path is not a prefix.
\<close>

fun relative_to :: "path \<Rightarrow> path \<Rightarrow> path option" where
  "relative_to p [] = Some p"
| "relative_to [] (r # rs) = None"
| "relative_to (c # cs) (r # rs) = (if c = r then relative_to cs rs else None)"

text \<open>
  The module-level generator of \<^verbatim>\<open>random\<close> is the sequence of raw draws it is
  going to produce; a call consumes the first one. Theorems quantify over every such
  sequence.
\<close>

type_synonym rng = "nat list"

fun draw :: "rng \<Rightarrow> nat \<times> rng" where
  "draw [] = (0, [])"
| "draw (r # g) = (r, g)"

text \<open>\<^verbatim>\<open>random.choice(xs)\<close>: \<^verbatim>\<open>IndexError\<close> on an empty list.\<close>

definition choice :: "'a list \<Rightarrow> rng \<Rightarrow> error + ('a \<times> rng)" where
  "choice xs g =
     (if xs = [] then Inl IndexError
      else Inr (xs ! (fst (draw g) mod length xs), snd (draw g)))"

section \<open>Arrays and tensors\<close>

text \<open>
  A numpy array or torch tensor: its shape and its element at each index (one index
  per axis). Only the elements at indices inside the shape mean anything.
\<close>

record ndarray =
  shape :: "nat list"
  elem :: "nat list \<Rightarrow> real"

definition map_nd :: "(real \<Rightarrow> real) \<Rightarrow> ndarray \<Rightarrow> ndarray" where
  "map_nd f a = a\<lparr>elem := \<lambda>i. f (elem a i)\<rparr>"

text \<open>\<^verbatim>\<open>np.where(mask, a, c)\<close> with a mask of the array's shape and a scalar \<open>c\<close>.\<close>

definition np_where :: "(nat list \<Rightarrow> bool) \<Rightarrow> ndarray \<Rightarrow> real \<Rightarrow> ndarray" where
  "np_where m a c = a\<lparr>elem := \<lambda>i. if m i then elem a i else c\<rparr>"

text \<open>
  A Python slice \<^verbatim>\<open>start:stop\<close> with non-negative bounds on an axis of length \<open>d\<close>:
  both bounds are cut down to \<open>d\<close>, and the slice is empty when the start is not
  before the stop.
\<close>

definition slice_start :: "nat \<Rightarrow> nat \<times> nat \<Rightarrow> nat" where
  "slice_start d b = min (fst b) d"

definition slice_len :: "nat \<Rightarrow> nat \<times> nat \<Rightarrow> nat" where
  "slice_len d b = min (snd b) d - min (fst b) d"

text \<open>
  \<^verbatim>\<open>a[s0:e0, s1:e1, ...]\<close>: basic slicing of the leading axes; more slices than axes
  is an \<^verbatim>\<open>IndexError\<close>.
\<close>

definition getitem_slices :: "ndarray \<Rightarrow> (nat \<times> nat) list \<Rightarrow> error + ndarray" where
  "getitem_slices a bs =
     (if length (shape a) < length bs then Inl IndexError
      else Inr \<lparr>shape = map2 slice_len (shape a) bs @ drop (length bs) (shape a),
                elem = \<lambda>i. elem a (map2 (+) (map2 slice_start (shape a) bs) i
                                  @ drop (length bs) i)\<rparr>)"

text \<open>\<^verbatim>\<open>torch.clamp(t, lo, hi)\<close> on one element: \<open>min (max x lo) hi\<close>.\<close>

definition clamp :: "real \<Rightarrow> real \<Rightarrow> real \<Rightarrow> real" where
  "clamp x lo hi = min (max x lo) hi"

text \<open>\<^verbatim>\<open>t.unsqueeze(0)\<close>: a new leading axis of length one.\<close>

definition unsqueeze0 :: "ndarray \<Rightarrow> ndarray" where
  "unsqueeze0 t = \<lparr>shape = 1 # shape t, elem = \<lambda>i. elem t (tl i)\<rparr>"

text \<open>
  \<^verbatim>\<open>t.squeeze()\<close> with no argument drops every axis of length one. An index of the
  squeezed tensor is filled up with zeros at the dropped axes.
\<close>

fun expand_index :: "nat list \<Rightarrow> nat list \<Rightarrow> nat list" where
  "expand_index [] i = []"
| "expand_index (d # ds) i =
     (if d = 1 then 0 # expand_index ds i
      else (case i of [] \<Rightarrow> 0 # expand_index ds []
                    | k # ks \<Rightarrow> k # expand_index ds ks))"

definition squeeze :: "ndarray \<Rightarrow> ndarray" where
  "squeeze t = \<lparr>shape = filter (\<lambda>d. d \<noteq> 1) (shape t),
               elem = \<lambda>i. elem t (expand_index (shape t) i)\<rparr>"

text \<open>\<^verbatim>\<open>torch.full(shape, c)\<close>.\<close>

definition torch_full :: "nat list \<Rightarrow> real \<Rightarrow> ndarray" where
  "torch_full shp c = \<lparr>shape = shp, elem = \<lambda>i. c\<rparr>"

text \<open>
  Broadcasting a value of shape \<open>s\<close> to a region of shape \<open>r\<close>: the shapes are
  aligned at their last axes, and each axis of the value has the region's length or
  length one.
\<close>

definition broadcastable :: "nat list \<Rightarrow> nat list \<Rightarrow> bool" where
  "broadcastable s r =
     (length s \<le> length r \<and>
      list_all2 (\<lambda>x y. x = y \<or> x = 1) s (drop (length r - length s) r))"

definition in_region :: "nat list \<Rightarrow> nat list \<Rightarrow> nat list \<Rightarrow> bool" where
  "in_region starts r i =
     (length i = length r \<and>
      list_all2 (\<lambda>k (s, d). s \<le> k \<and> k < s + d) i (zip starts r))"

text \<open>
  \<^verbatim>\<open>dst[s0:e0, s1:e1, ...] = src\<close> on torch tensors: the leading axes of length one
  of \<open>src\<close> are dropped, what is left is broadcast to the sliced region, and a value
  that does not broadcast is a \<^verbatim>\<open>RuntimeError\<close>. The elements of \<open>dst\<close> outside the
  region keep their values.
\<close>

definition setitem_slices ::
  "ndarray \<Rightarrow> (nat \<times> nat) list \<Rightarrow> ndarray \<Rightarrow> error + ndarray" where
  "setitem_slices dst bs src =
     (if length (shape dst) < length bs then Inl IndexError
      else
        let n = length bs;
            starts = map2 slice_start (shape dst) bs @ replicate (length (shape dst) - n) 0;
            r = map2 slice_len (shape dst) bs @ drop n (shape dst);
            k = length (takeWhile (\<lambda>d. d = 1) (shape src));
            s = drop k (shape src)
        in if \<not> broadcastable s r
           then Inl (RuntimeError ''The expanded size of the tensor must match the existing size'')
           else Inr (dst\<lparr>elem := \<lambda>i.
                  if in_region starts r i
                  then elem src (replicate k 0 @
                         map2 (\<lambda>d j. if d = 1 then 0 else j) s
                           (drop (length r - length s) (map2 (-) i starts)))
                  else elem dst i\<rparr>))"

section \<open>The Normalizer\<close>

text \<open>
  Modelled from the spec: \<^verbatim>\<open>min_max_normalize\<close> and \<^verbatim>\<open>min_max_denormalize\<close>
  (\<^verbatim>\<open>midaGAN.data.utils.normalization\<close>) are not among the sources. The spec's
  Normalizer clips the intensity to \<open>[hu_min, hu_max]\<close> and then maps it linearly to
  \<open>[-1, 1]\<close>; the clip is the \<^verbatim>\<open>torch.clamp\<close> the datasets call first (lines 177-178
  and 267 of \<^verbatim>\<open>cbcttoct_dataset.py\<close>), \<^verbatim>\<open>min_max_normalize\<close> is the linear map and
  \<^verbatim>\<open>min_max_denormalize\<close> its algebraic inverse. Intensities are real numbers here:
  the rounding of floating point is not modelled, and for \<open>hu_min = hu_max\<close> the
  Python divides by zero, which the theorems exclude.
\<close>

definition min_max_normalize :: "real \<Rightarrow> real \<Rightarrow> real \<Rightarrow> real" where
  "min_max_normalize x lo hi = 2 * ((x - lo) / (hi - lo)) - 1"

definition min_max_denormalize :: "real \<Rightarrow> real \<Rightarrow> real \<Rightarrow> real" where
  "min_max_denormalize y lo hi = (y + 1) / 2 * (hi - lo) + lo"

section \<open>Volumes and the collaborators that are not among the sources\<close>

text \<open>
  A SimpleITK image: the voxel array in numpy order \<open>(z, y, x)\<close> and the geometry.
  \<^verbatim>\<open>GetSize\<close> answers in SimpleITK order \<open>(x, y, z)\<close>.
\<close>

record volume =
  arr :: ndarray
  origin :: "real list"
  spacing :: "real list"
  direction :: "real list"
  dtype :: string

definition GetSize :: "volume \<Rightarrow> nat list" where
  "GetSize v = rev (shape (arr v))"

definition get_npy :: "volume \<Rightarrow> ndarray" where
  "get_npy v = arr v"

definition get_npy_dtype :: "volume \<Rightarrow> string" where
  "get_npy_dtype v = dtype v"

text \<open>\<^verbatim>\<open>image - c\<close> on a SimpleITK image: every voxel, the geometry kept.\<close>

definition vol_sub :: "volume \<Rightarrow> real \<Rightarrow> volume" where
  "vol_sub v c = v\<lparr>arr := map_nd (\<lambda>x. x - c) (arr v)\<rparr>"

text \<open>
  \<^verbatim>\<open>sitk_utils.tensor_to_sitk_image(tensor, origin, spacing, direction, dtype)\<close>.
\<close>

definition tensor_to_sitk_image ::
  "ndarray \<Rightarrow> real list \<Rightarrow> real list \<Rightarrow> real list \<Rightarrow> string \<Rightarrow> volume" where
  "tensor_to_sitk_image t og sp dr dt =
     \<lparr>arr = t, origin = og, spacing = sp, direction = dr, dtype = dt\<rparr>"

type_synonym bounds = "(nat \<times> nat) \<times> (nat \<times> nat) \<times> (nat \<times> nat)"

definition bounds_list :: "bounds \<Rightarrow> (nat \<times> nat) list" where
  "bounds_list b = [fst b, fst (snd b), snd (snd b)]"

text \<open>
  The functions of \<^verbatim>\<open>midaGAN\<close> the datasets call whose code is not among the sources
  are parameters of the model: the volume I/O provider (\<^verbatim>\<open>sitk_utils.load\<close>), the FOV
  truncator, the scope registrar, the body mask and bounder (which may raise) and the
  padder.
\<close>

record collaborators =
  load :: "path \<Rightarrow> volume"
  truncate_CBCT_based_on_fov :: "volume \<Rightarrow> volume"
  truncate_CT_to_scope_of_CBCT :: "volume \<Rightarrow> volume \<Rightarrow> volume"
  apply_body_mask_and_bound :: "ndarray \<Rightarrow> bool \<Rightarrow> bool \<Rightarrow> int \<Rightarrow> error + ndarray"
  get_body_mask_and_bound :: "ndarray \<Rightarrow> int \<Rightarrow> (nat list \<Rightarrow> bool) \<times> bounds"
  data_utils_pad :: "nat list \<Rightarrow> ndarray \<Rightarrow> ndarray"

section \<open>CBCTtoCTInferenceDataset\<close>

record dataset_conf =
  hu_min :: int
  hu_max :: int
  apply_mask :: bool
  apply_bound :: bool
  cbct_mask_threshold :: int

record inference_dataset = dataset_conf +
  root_path :: path
  paths :: "path list"

text \<open>
  The list \<^verbatim>\<open>metadata\<close> of \<^verbatim>\<open>__getitem__\<close> (lines 238-243 and 260), which
  \<^verbatim>\<open>save\<close> unpacks at line 282.
\<close>

record metadata =
  md_path :: path
  md_size :: "nat list"
  md_origin :: "real list"
  md_spacing :: "real list"
  md_direction :: "real list"
  md_dtype :: string
  md_bounds :: bounds

text \<open>
  Lines 264-271: \<^verbatim>\<open>torch.tensor\<close>, \<^verbatim>\<open>torch.clamp\<close>, \<^verbatim>\<open>min_max_normalize\<close> and
  \<^verbatim>\<open>unsqueeze(0)\<close>.
\<close>

definition to_tensor :: "int \<Rightarrow> int \<Rightarrow> ndarray \<Rightarrow> ndarray" where
  "to_tensor lo hi a =
     unsqueeze0
       (map_nd (\<lambda>x. min_max_normalize x (real_of_int lo) (real_of_int hi))
          (map_nd (\<lambda>x. clamp x (real_of_int lo) (real_of_int hi)) a))"

text \<open>Lines 230-236: load, subtract 1024, truncate to the field of view.\<close>

definition load_and_truncate :: "collaborators \<Rightarrow> path \<Rightarrow> volume" where
  "load_and_truncate env path =
     truncate_CBCT_based_on_fov env (vol_sub (load env path) 1024)"

text \<open>\<^verbatim>\<open>CBCTtoCTInferenceDataset.__getitem__\<close> (lines 225-273).\<close>

definition inference_getitem ::
  "collaborators \<Rightarrow> inference_dataset \<Rightarrow> nat \<Rightarrow> error + (ndarray \<times> metadata)" where
  "inference_getitem env ds index =
     (if length (paths ds) \<le> index then Inl IndexError
      else
        let path = paths ds ! index;
            truncated = load_and_truncate env path;
            a = get_npy truncated;
            mb = get_body_mask_and_bound env a (cbct_mask_threshold ds);
            masked = (if apply_mask ds then np_where (fst mb) a (- 1024) else a)
        in case (if apply_bound ds then getitem_slices masked (bounds_list (snd mb))
                 else Inr masked) of
             Inl e \<Rightarrow> Inl e
           | Inr bounded \<Rightarrow>
               Inr (to_tensor (hu_min ds) (hu_max ds) bounded,
                    \<lparr>md_path = path,
                     md_size = GetSize truncated,
                     md_origin = origin truncated,
                     md_spacing = spacing truncated,
                     md_direction = direction truncated,
                     md_dtype = get_npy_dtype truncated,
                     md_bounds = snd mb\<rparr>))"

text \<open>
  \<^verbatim>\<open>CBCTtoCTInferenceDataset.save\<close> (lines 278-300). What it writes is its result:
  the path and the image handed to \<^verbatim>\<open>sitk_utils.write\<close>.
\<close>

definition save ::
  "inference_dataset \<Rightarrow> ndarray \<Rightarrow> metadata \<Rightarrow> path \<Rightarrow> error + (path \<times> volume)" where
  "save ds tensor md output_dir =
     (let t = map_nd (\<lambda>y. min_max_denormalize y (real_of_int (hu_min ds))
                              (real_of_int (hu_max ds)))
                (squeeze tensor);
          sz = md_size md
      in if length sz < 3 then Inl IndexError
         else
           case setitem_slices (torch_full [sz ! 2, sz ! 1, sz ! 0] (- 1024))
                  (bounds_list (md_bounds md)) t of
             Inl e \<Rightarrow> Inl e
           | Inr full_tensor \<Rightarrow>
               (case relative_to (md_path md) (root_path ds) of
                  None \<Rightarrow> Inl (ValueError ''path is not in the subpath of the root'')
                | Some rel \<Rightarrow>
                    Inr (output_dir @ rel,
                         tensor_to_sitk_image full_tensor (md_origin md) (md_spacing md)
                           (md_direction md) (md_dtype md))))"

text \<open>
  The Reconstructor's round trip: the crop of line 257, the tensor of lines 264-271,
  then \<^verbatim>\<open>save\<close>.
\<close>

definition crop_then_save ::
  "inference_dataset \<Rightarrow> ndarray \<Rightarrow> metadata \<Rightarrow> path \<Rightarrow> error + (path \<times> volume)" where
  "crop_then_save ds V md output_dir =
     (case getitem_slices V (bounds_list (md_bounds md)) of
        Inl e \<Rightarrow> Inl e
      | Inr crop \<Rightarrow> save ds (to_tensor (hu_min ds) (hu_max ds) crop) md output_dir)"

section \<open>Body Mask and Bounder, FOV Truncator\<close>

text \<open>
  The first and one-past-the-last index below \<open>n\<close> that \<open>hit\<close> accepts; the whole
  axis when it accepts none.
\<close>

definition foreground_range :: "(nat \<Rightarrow> bool) \<Rightarrow> nat \<Rightarrow> nat \<times> nat" where
  "foreground_range hit n =
     (let ks = filter hit [0..<n]
      in if ks = [] then (0, n) else (hd ks, Suc (last ks)))"

text \<open>
  The tight axis-aligned box around the voxels of a three-dimensional mask, half-open
  on every axis; the whole volume when the mask is empty.
\<close>

definition bounding_box :: "(nat list \<Rightarrow> bool) \<Rightarrow> nat list \<Rightarrow> bounds" where
  "bounding_box m shp =
     (case shp of
        [Z, Y, X] \<Rightarrow>
          (foreground_range (\<lambda>z. list_ex (\<lambda>y. list_ex (\<lambda>x. m [z, y, x]) [0..<X]) [0..<Y]) Z,
           foreground_range (\<lambda>y. list_ex (\<lambda>z. list_ex (\<lambda>x. m [z, y, x]) [0..<X]) [0..<Z]) Y,
           foreground_range (\<lambda>x. list_ex (\<lambda>z. list_ex (\<lambda>y. m [z, y, x]) [0..<Y]) [0..<Z]) X)
      | _ \<Rightarrow> ((0, 0), (0, 0), (0, 0)))"

text \<open>
  Modelled from the spec: \<^verbatim>\<open>get_body_mask_and_bound\<close> and
  \<^verbatim>\<open>apply_body_mask_and_bound\<close> (\<^verbatim>\<open>midaGAN.data.utils.body_mask\<close>) are not among
  the sources. The spec's Body Mask and Bounder segments by one intensity threshold,
  gives the boolean mask and the tight bounding box of the foreground, falls back to
  the whole volume's box when the mask is empty, overwrites the background with
  \<open>-1024\<close> under \<open>apply_mask\<close> and crops to the box under \<open>apply_bound\<close>. The two
  toggles are applied as lines 252-257 apply them. The spec names no input on which
  it raises, so this instance never does.
\<close>

definition get_body_mask_and_bound_spec ::
  "ndarray \<Rightarrow> int \<Rightarrow> (nat list \<Rightarrow> bool) \<times> bounds" where
  "get_body_mask_and_bound_spec a HU_threshold =
     (\<lambda>i. real_of_int HU_threshold < elem a i,
      bounding_box (\<lambda>i. real_of_int HU_threshold < elem a i) (shape a))"

definition apply_body_mask_and_bound_spec ::
  "ndarray \<Rightarrow> bool \<Rightarrow> bool \<Rightarrow> int \<Rightarrow> error + ndarray" where
  "apply_body_mask_and_bound_spec a am ab HU_threshold =
     (let mb = get_body_mask_and_bound_spec a HU_threshold;
          masked = (if am then np_where (fst mb) a (- 1024) else a)
      in if ab then getitem_slices masked (bounds_list (snd mb)) else Inr masked)"

text \<open>
  Modelled from the spec: \<^verbatim>\<open>truncate_CBCT_based_on_fov\<close>
  (\<^verbatim>\<open>midaGAN.data.utils.fov_truncate\<close>) is not among the sources. The spec's FOV
  Truncator finds the valid content by an intensity threshold against the fill value
  and crops to the box that encloses it; with no valid content the volume comes back
  unchanged. The fill value is a parameter. The spec does not say what becomes of the
  geometry, which is carried over.
\<close>

definition truncate_CBCT_based_on_fov_spec :: "real \<Rightarrow> volume \<Rightarrow> volume" where
  "truncate_CBCT_based_on_fov_spec fill v =
     (case getitem_slices (arr v)
             (bounds_list (bounding_box (\<lambda>i. fill < elem (arr v) i) (shape (arr v)))) of
        Inl e \<Rightarrow> v
      | Inr cropped \<Rightarrow> v\<lparr>arr := cropped\<rparr>)"

section \<open>Size Guard\<close>

text \<open>
  Modelled from the spec: \<^verbatim>\<open>sitk_utils.is_volume_smaller_than\<close> is not among the
  sources. A volume is undersized when some axis of it is shorter than the patch.
\<close>

definition smaller_than :: "nat list \<Rightarrow> nat list \<Rightarrow> bool" where
  "smaller_than shp ps = list_ex (\<lambda>(d, k). d < k) (zip shp ps)"

definition is_volume_smaller_than :: "volume \<Rightarrow> nat list \<Rightarrow> bool" where
  "is_volume_smaller_than v ps = smaller_than (shape (arr v)) ps"

text \<open>
  Modelled from the spec: \<^verbatim>\<open>size_invalid_check_and_replace\<close>
  (\<^verbatim>\<open>midaGAN.data.utils\<close>) is not among the sources. Under the replace policy an
  undersized volume is replaced by a different candidate drawn from the list of the
  same case and checked again; when the list is used up the answer is \<^verbatim>\<open>None\<close>,
  which line 103 tests.
\<close>

function replace_loop ::
  "(path \<Rightarrow> volume) \<Rightarrow> nat list \<Rightarrow> volume \<Rightarrow> path list \<Rightarrow> rng \<Rightarrow> volume option \<times> rng" where
  "replace_loop ld ps v cands g =
     (if \<not> is_volume_smaller_than v ps then (Some v, g)
      else if cands = [] then (None, g)
      else replace_loop ld ps
             (ld (cands ! (fst (draw g) mod length cands)))
             (take (fst (draw g) mod length cands) cands
                @ drop (Suc (fst (draw g) mod length cands)) cands)
             (snd (draw g)))"
  by pat_completeness auto
termination
proof (relation "measure (\<lambda>(ld, ps, v, cands, g). length cands)")
  fix ld :: "path \<Rightarrow> volume" and ps :: "nat list" and v :: volume
    and cands :: "path list" and g :: rng
  assume "cands \<noteq> []"
  then have "fst (draw g) mod length cands < length cands"
    by simp
  then show "((ld, ps, ld (cands ! (fst (draw g) mod length cands)),
               take (fst (draw g) mod length cands) cands
                 @ drop (Suc (fst (draw g) mod length cands)) cands,
               snd (draw g)),
              (ld, ps, v, cands, g))
             \<in> measure (\<lambda>(ld, ps, v, cands, g). length cands)"
    by simp
qed simp

declare replace_loop.simps [simp del]

definition size_invalid_check_and_replace ::
  "(path \<Rightarrow> volume) \<Rightarrow> volume \<Rightarrow> nat list \<Rightarrow> path list \<Rightarrow> path \<Rightarrow> rng
     \<Rightarrow> volume option \<times> rng" where
  "size_invalid_check_and_replace ld v ps replacement_paths original_path g =
     replace_loop ld ps v (remove1 original_path replacement_paths) g"

section \<open>Stochastic Focal Patch Sampler\<close>

text \<open>
  Modelled from the spec: \<^verbatim>\<open>StochasticFocalPatchSampler\<close>
  (\<^verbatim>\<open>midaGAN.data.utils.stochastic_focal_patching\<close>) is not among the sources. On
  each axis the valid starting offsets are \<open>[0, dim - patch_dim]\<close>; the focal
  sub-interval has \<open>p\<close> times that length and the same midpoint; the offset is drawn
  uniformly from it, and the same offsets are applied to both volumes. Offsets are
  whole numbers: the ends of the sub-interval are rounded down. A volume shorter than
  the patch on some axis is fatal. The valid range is computed from the first volume
  (the spec takes the two shapes to be identical).
\<close>

record StochasticFocalPatchSampler =
  sampler_patch_size :: "nat list"
  focal_region_proportion :: real

definition focal_interval :: "real \<Rightarrow> nat \<Rightarrow> nat \<times> nat" where
  "focal_interval p R =
     (nat \<lfloor>(1 - p) * real R / 2\<rfloor>, nat \<lfloor>(1 + p) * real R / 2\<rfloor>)"

text \<open>
  The centre of the valid range \<open>[0, dim - patch_dim]\<close> of each axis (rounded down
  where the range has an even number of offsets).
\<close>

definition center_offsets :: "nat list \<Rightarrow> nat list \<Rightarrow> nat list" where
  "center_offsets shp ps = map2 (\<lambda>d k. (d - k) div 2) shp ps"

fun sample_offsets :: "real \<Rightarrow> nat list \<Rightarrow> rng \<Rightarrow> nat list \<times> rng" where
  "sample_offsets p [] g = ([], g)"
| "sample_offsets p (R # Rs) g =
     ((fst (focal_interval p R)
         + fst (draw g) mod (snd (focal_interval p R) - fst (focal_interval p R) + 1))
        # fst (sample_offsets p Rs (snd (draw g))),
      snd (sample_offsets p Rs (snd (draw g))))"

definition patch_at :: "nat list \<Rightarrow> nat list \<Rightarrow> ndarray \<Rightarrow> error + ndarray" where
  "patch_at offsets ps a = getitem_slices a (map2 (\<lambda>k n. (k, k + n)) offsets ps)"

definition get_patch_pair ::
  "StochasticFocalPatchSampler \<Rightarrow> ndarray \<Rightarrow> ndarray \<Rightarrow> rng
     \<Rightarrow> error + ((ndarray \<times> ndarray) \<times> rng)" where
  "get_patch_pair s A B g =
     (let ps = sampler_patch_size s in
      if length (shape A) \<noteq> length ps \<or> length (shape B) \<noteq> length ps
         \<or> smaller_than (shape A) ps \<or> smaller_than (shape B) ps
      then Inl (ValueError ''volume smaller than the patch'')
      else
        let og = sample_offsets (focal_region_proportion s) (map2 (-) (shape A) ps) g
        in case patch_at (fst og) ps A of
             Inl e \<Rightarrow> Inl e
           | Inr pa \<Rightarrow>
               (case patch_at (fst og) ps B of
                  Inl e \<Rightarrow> Inl e
                | Inr pb \<Rightarrow> Inr ((pa, pb), snd og)))"

section \<open>CBCTtoCTDataset\<close>

text \<open>A Python dictionary with string keys, in insertion order.\<close>

type_synonym 'v dict = "(string \<times> 'v) list"

fun dict_set :: "'v dict \<Rightarrow> string \<Rightarrow> 'v \<Rightarrow> 'v dict" where
  "dict_set [] k v = [(k, v)]"
| "dict_set ((k', v') # d) k v =
     (if k' = k then (k, v) # d else (k', v') # dict_set d k v)"

datatype log_entry = LogError string path | LogInfo string

record train_dataset = dataset_conf +
  paths_CBCT :: "path list dict"
  paths_CT :: "path list dict"
  num_datapoints :: nat
  patch_size :: "nat list"
  patch_sampler :: StochasticFocalPatchSampler
  ct_mask_threshold :: int
  pad :: bool

text \<open>Lines 80-87: the patient of the index and one random path of each modality.\<close>

definition pick_paths ::
  "train_dataset \<Rightarrow> nat \<Rightarrow> rng
     \<Rightarrow> error + (path list \<times> path list \<times> path \<times> path \<times> rng)" where
  "pick_paths ds index g =
     (if length (paths_CT ds) \<le> index then Inl IndexError
      else
        let patient_index = fst (paths_CT ds ! index)
        in case map_of (paths_CBCT ds) patient_index of
             None \<Rightarrow> Inl KeyError
           | Some pc \<Rightarrow>
               (case map_of (paths_CT ds) patient_index of
                  None \<Rightarrow> Inl KeyError
                | Some pt \<Rightarrow>
                    (case choice pc g of
                       Inl e \<Rightarrow> Inl e
                     | Inr (path_CBCT, g1) \<Rightarrow>
                         (case choice pt g1 of
                            Inl e \<Rightarrow> Inl e
                          | Inr (path_CT, g2) \<Rightarrow> Inr (pc, pt, path_CBCT, path_CT, g2)))))"

text \<open>Lines 90-104: load both volumes; under the replace policy, the Size Guard.\<close>

definition load_and_guard ::
  "collaborators \<Rightarrow> train_dataset \<Rightarrow> path list \<Rightarrow> path list \<Rightarrow> path \<Rightarrow> path \<Rightarrow> rng
     \<Rightarrow> error + (volume \<times> volume \<times> rng)" where
  "load_and_guard env ds pc pt path_CBCT path_CT g =
     (let r1 = (if \<not> pad ds
                then size_invalid_check_and_replace (load env) (load env path_CBCT)
                       (patch_size ds) pc path_CBCT g
                else (Some (load env path_CBCT), g));
          r2 = (if \<not> pad ds
                then size_invalid_check_and_replace (load env) (load env path_CT)
                       (patch_size ds) pt path_CT (snd r1)
                else (Some (load env path_CT), snd r1))
      in case (fst r1, fst r2) of
           (Some CBCT, Some CT) \<Rightarrow> Inr (CBCT, CT, snd r2)
         | _ \<Rightarrow> Inl (RuntimeError ''Suitable replacement volume could not be found!''))"

text \<open>
  Lines 107-135: the shift of the CBCT, the FOV truncation, the size check of the
  replace policy, the registration of the CT to the scope of the CBCT, and the arrays
  of both.
\<close>

definition truncate_and_register ::
  "collaborators \<Rightarrow> train_dataset \<Rightarrow> volume \<Rightarrow> volume
     \<Rightarrow> error + (ndarray \<times> ndarray \<times> log_entry list)" where
  "truncate_and_register env ds CBCT0 CT0 =
     (let CBCT = truncate_CBCT_based_on_fov env (vol_sub CBCT0 1024)
      in if (is_volume_smaller_than CBCT (patch_size ds)
               \<or> is_volume_smaller_than CT0 (patch_size ds)) \<and> \<not> pad ds
         then Inl (ValueError ''Volume size not smaller than the defined patch size.'')
         else
           let CT_truncated = truncate_CT_to_scope_of_CBCT env CT0 CBCT
           in if is_volume_smaller_than CT_truncated (patch_size ds) \<and> \<not> pad ds
              then Inr (get_npy CBCT, get_npy CT0,
                        [LogInfo ''Post-registration truncated CT is smaller than the defined patch size. Passing the whole CT volume.''])
              else Inr (get_npy CBCT, get_npy CT_truncated, []))"

text \<open>
  One \<^verbatim>\<open>try\<close> block of lines 139-150: the array the block leaves in the variable, and
  what it logs. The bare \<^verbatim>\<open>except\<close> catches every exception.
\<close>

definition try_mask_and_bound ::
  "collaborators \<Rightarrow> train_dataset \<Rightarrow> int \<Rightarrow> path \<Rightarrow> ndarray \<Rightarrow> ndarray \<times> log_entry list" where
  "try_mask_and_bound env ds HU_threshold p a =
     (case apply_body_mask_and_bound env a (apply_mask ds) (apply_bound ds) HU_threshold of
        Inl e \<Rightarrow> (a, [LogError ''Error applying mask and bound in file : '' p])
      | Inr a' \<Rightarrow> (a', []))"

text \<open>Lines 153-155.\<close>

definition pad_if_enabled :: "collaborators \<Rightarrow> train_dataset \<Rightarrow> ndarray \<Rightarrow> ndarray" where
  "pad_if_enabled env ds a = (if pad ds then data_utils_pad env (patch_size ds) a else a)"

text \<open>
  Lines 170-188: the patch pair, \<^verbatim>\<open>torch.clamp\<close>, \<^verbatim>\<open>min_max_normalize\<close>,
  \<^verbatim>\<open>unsqueeze(0)\<close>; the pair is the dictionary's \<open>A\<close> and \<open>B\<close>.
\<close>

definition sample_and_normalize ::
  "train_dataset \<Rightarrow> ndarray \<Rightarrow> ndarray \<Rightarrow> rng \<Rightarrow> error + ((ndarray \<times> ndarray) \<times> rng)" where
  "sample_and_normalize ds CBCT CT g =
     (case get_patch_pair (patch_sampler ds) CBCT CT g of
        Inl e \<Rightarrow> Inl e
      | Inr ((pa, pb), g') \<Rightarrow>
          Inr ((to_tensor (hu_min ds) (hu_max ds) pa,
                to_tensor (hu_min ds) (hu_max ds) pb), g'))"

text \<open>
  Lines 80-135 in one: what reaches the \<^verbatim>\<open>try\<close> blocks, or the exception raised
  before them.
\<close>

definition prepare ::
  "collaborators \<Rightarrow> train_dataset \<Rightarrow> nat \<Rightarrow> rng
     \<Rightarrow> error + (path \<times> path \<times> ndarray \<times> ndarray \<times> log_entry list \<times> rng)" where
  "prepare env ds index g =
     (case pick_paths ds index g of
        Inl e \<Rightarrow> Inl e
      | Inr (pc, pt, path_CBCT, path_CT, g1) \<Rightarrow>
          (case load_and_guard env ds pc pt path_CBCT path_CT g1 of
             Inl e \<Rightarrow> Inl e
           | Inr (CBCT, CT, g2) \<Rightarrow>
               (case truncate_and_register env ds CBCT CT of
                  Inl e \<Rightarrow> Inl e
                | Inr (a, b, lg) \<Rightarrow> Inr (path_CBCT, path_CT, a, b, lg, g2))))"

text \<open>
  Lines 80-171: the two arrays handed to the patch sampler at line 174, with the log
  so far.
\<close>

definition sampler_inputs ::
  "collaborators \<Rightarrow> train_dataset \<Rightarrow> nat \<Rightarrow> rng
     \<Rightarrow> error + (ndarray \<times> ndarray \<times> log_entry list \<times> rng)" where
  "sampler_inputs env ds index g =
     (case prepare env ds index g of
        Inl e \<Rightarrow> Inl e
      | Inr (path_CBCT, path_CT, a, b, lg, g') \<Rightarrow>
          (let ma = try_mask_and_bound env ds (cbct_mask_threshold ds) path_CBCT a;
               mb = try_mask_and_bound env ds (ct_mask_threshold ds) path_CT b
           in Inr (pad_if_enabled env ds (fst ma), pad_if_enabled env ds (fst mb),
                   lg @ snd ma @ snd mb, g')))"

text \<open>
  \<^verbatim>\<open>CBCTtoCTDataset.__getitem__\<close> (lines 79-188): the log, and the pair returned or
  the exception raised.
\<close>

definition getitem ::
  "collaborators \<Rightarrow> train_dataset \<Rightarrow> nat \<Rightarrow> rng
     \<Rightarrow> log_entry list \<times> (error + ((ndarray \<times> ndarray) \<times> rng))" where
  "getitem env ds index g =
     (case sampler_inputs env ds index g of
        Inl e \<Rightarrow> ([], Inl e)
      | Inr (CBCT, CT, lg, g') \<Rightarrow> (lg, sample_and_normalize ds CBCT CT g'))"

section \<open>CBCTtoCTDataset.__init__\<close>

text \<open>
  What the constructor reads from its surroundings: which paths are directories, the
  entries of a directory (\<^verbatim>\<open>Path.iterdir\<close>), and the answer of
  \<^verbatim>\<open>make_recursive_dataset_of_files\<close> (\<^verbatim>\<open>midaGAN.utils.io\<close>) for a directory and a
  list of extensions. The code of that function is not among the sources and the spec
  does not describe it, so it is a parameter, and it may raise.
\<close>

record file_system =
  is_dir :: "path \<Rightarrow> bool"
  iterdir :: "path \<Rightarrow> path list"
  make_recursive_dataset_of_files :: "path \<Rightarrow> string list \<Rightarrow> error + path list"

definition EXTENSIONS :: "string list" where
  "EXTENSIONS = [''.nrrd'']"

definition name_of :: "path \<Rightarrow> string" where
  "name_of p = (if p = [] then [] else last p)"

text \<open>
  \<^verbatim>\<open>Path.stem\<close>: the last component without its final suffix; a dot that starts or
  ends the name begins no suffix.
\<close>

definition stem :: "path \<Rightarrow> string" where
  "stem p =
     (let n = name_of p
      in case filter (\<lambda>k. n ! k = CHR ''.'') (rev [0..<length n]) of
           [] \<Rightarrow> n
         | k # ks \<Rightarrow> (if 0 < k \<and> k < length n - 1 then take k n else n))"

record CBCTtoCTDatasetConfig =
  conf_root :: path
  conf_patch_size :: "nat list"
  conf_hounsfield_units_range :: "int \<times> int"
  conf_focal_region_proportion :: real
  conf_enable_masking :: bool
  conf_enable_bounding :: bool
  conf_ct_mask_threshold :: int
  conf_cbct_mask_threshold :: int
  conf_pad :: bool

text \<open>The loop of lines 55-58 over the entries of the root directory.\<close>

fun scan_patients ::
  "file_system \<Rightarrow> path list \<Rightarrow> path list dict \<times> path list dict
     \<Rightarrow> error + (path list dict \<times> path list dict)" where
  "scan_patients fs [] acc = Inr acc"
| "scan_patients fs (patient # rest) acc =
     (case make_recursive_dataset_of_files fs (patient @ [''CBCT'']) EXTENSIONS of
        Inl e \<Rightarrow> Inl e
      | Inr cbct \<Rightarrow>
          (case make_recursive_dataset_of_files fs (patient @ [''CT'']) EXTENSIONS of
             Inl e \<Rightarrow> Inl e
           | Inr CT_nrrds \<Rightarrow>
               scan_patients fs rest
                 (dict_set (fst acc) (stem patient) cbct,
                  dict_set (snd acc) (stem patient)
                    (filter (\<lambda>p. stem p = ''CT'') CT_nrrds))))"

text \<open>
  \<^verbatim>\<open>CBCTtoCTDataset.__init__\<close> (lines 48-76). \<^verbatim>\<open>iterdir\<close> raises on a root that is
  no directory.
\<close>

definition CBCTtoCTDataset_init ::
  "file_system \<Rightarrow> CBCTtoCTDatasetConfig \<Rightarrow> error + train_dataset" where
  "CBCTtoCTDataset_init fs conf =
     (if \<not> is_dir fs (conf_root conf) then Inl (OSError ''root is not a directory'')
      else
        case scan_patients fs (iterdir fs (conf_root conf)) ([], []) of
          Inl e \<Rightarrow> Inl e
        | Inr (pc, pt) \<Rightarrow>
            if length pc \<noteq> length pt
            then Inl (AssertionError ''Number of patients should match for CBCT and CT'')
            else Inr \<lparr>hu_min = fst (conf_hounsfield_units_range conf),
                      hu_max = snd (conf_hounsfield_units_range conf),
                      apply_mask = conf_enable_masking conf,
                      apply_bound = conf_enable_bounding conf,
                      cbct_mask_threshold = conf_cbct_mask_threshold conf,
                      paths_CBCT = pc,
                      paths_CT = pt,
                      num_datapoints = length pt,
                      patch_size = conf_patch_size conf,
                      patch_sampler =
                        \<lparr>sampler_patch_size = conf_patch_size conf,
                         focal_region_proportion = conf_focal_region_proportion conf\<rparr>,
                      ct_mask_threshold = conf_ct_mask_threshold conf,
                      pad = conf_pad conf\<rparr>)"

section \<open>NpyUnaligned3dDataset\<close>

text \<open>
  The functions \<^verbatim>\<open>__getitem__\<close> of \<^verbatim>\<open>npy_unaligned_3d_dataset.py\<close> calls whose code
  is not among the sources: \<^verbatim>\<open>np.load\<close>, the patch sampler, \<^verbatim>\<open>normalize_from_hu\<close>
  and \<^verbatim>\<open>plt.imsave\<close> (given the letter and the number of the file name).
\<close>

record npy_collaborators =
  np_load :: "path \<Rightarrow> error + ndarray"
  npy_get_patch_pair :: "ndarray \<Rightarrow> ndarray \<Rightarrow> rng \<Rightarrow> error + ((ndarray \<times> ndarray) \<times> rng)"
  normalize_from_hu :: "ndarray \<Rightarrow> real \<Rightarrow> real \<Rightarrow> ndarray"
  imsave :: "string \<Rightarrow> nat \<Rightarrow> ndarray \<Rightarrow> error option"

record npy_dataset =
  A_paths :: "path list"
  B_paths :: "path list"
  norm_A :: "real dict"
  norm_B :: "real dict"

definition A_size :: "npy_dataset \<Rightarrow> nat" where
  "A_size ds = length (A_paths ds)"

definition B_size :: "npy_dataset \<Rightarrow> nat" where
  "B_size ds = length (B_paths ds)"

text \<open>The slice \<open>t[i]\<close> that iterating over a tensor yields.\<close>

definition tensor_slice :: "ndarray \<Rightarrow> nat \<Rightarrow> ndarray" where
  "tensor_slice t i = \<lparr>shape = tl (shape t), elem = \<lambda>j. elem t (i # j)\<rparr>"

text \<open>
  One loop of lines 49-52: \<^verbatim>\<open>imsave\<close> of every slice along the first axis, up to the
  first that raises. Iterating over a tensor with no axis is a \<^verbatim>\<open>TypeError\<close>.
\<close>

fun save_from ::
  "(string \<Rightarrow> nat \<Rightarrow> ndarray \<Rightarrow> error option) \<Rightarrow> string \<Rightarrow> ndarray \<Rightarrow> nat list
     \<Rightarrow> error option" where
  "save_from sv tag t [] = None"
| "save_from sv tag t (i # rest) =
     (case sv tag i (tensor_slice t i) of
        Some e \<Rightarrow> Some e
      | None \<Rightarrow> save_from sv tag t rest)"

definition save_slices ::
  "(string \<Rightarrow> nat \<Rightarrow> ndarray \<Rightarrow> error option) \<Rightarrow> string \<Rightarrow> ndarray \<Rightarrow> error option" where
  "save_slices sv tag t =
     (case shape t of
        [] \<Rightarrow> Some (TypeError ''iteration over a 0-d tensor'')
      | n # ns \<Rightarrow> save_from sv tag t [0..<n])"

text \<open>
  \<^verbatim>\<open>NpyUnaligned3dDataset.__getitem__\<close> (lines 32-59): what the call returns, \<open>None\<close>
  for Python's \<^verbatim>\<open>None\<close> and \<open>Some\<close> for a dictionary with \<open>A\<close> and \<open>B\<close>.
\<close>

definition npy_getitem ::
  "npy_collaborators \<Rightarrow> npy_dataset \<Rightarrow> nat \<Rightarrow> rng
     \<Rightarrow> error + ((ndarray \<times> ndarray) option \<times> rng)" where
  "npy_getitem env ds index g =
     (if A_size ds = 0 then Inl ZeroDivisionError
      else if B_size ds = 0 then Inl (ValueError ''empty range for randrange()'')
      else
        case np_load env (A_paths ds ! (index mod A_size ds)) of
          Inl e \<Rightarrow> Inl e
        | Inr A0 \<Rightarrow>
        (case np_load env (B_paths ds ! (fst (draw g) mod B_size ds)) of
          Inl e \<Rightarrow> Inl e
        | Inr B0 \<Rightarrow>
        (case npy_get_patch_pair env A0 B0 (snd (draw g)) of
          Inl e \<Rightarrow> Inl e
        | Inr ((A1, B1), g') \<Rightarrow>
        (case (map_of (norm_A ds) ''min'', map_of (norm_A ds) ''max'',
               map_of (norm_B ds) ''min'', map_of (norm_B ds) ''max'') of
          (Some a_min, Some a_max, Some b_min, Some b_max) \<Rightarrow>
            (case save_slices (imsave env) ''A'' (normalize_from_hu env A1 a_min a_max) of
               Some e \<Rightarrow> Inl e
             | None \<Rightarrow>
                 (case save_slices (imsave env) ''B'' (normalize_from_hu env B1 b_min b_max) of
                    Some e \<Rightarrow> Inl e
                  | None \<Rightarrow> Inr (None, g')))
        | _ \<Rightarrow> Inl KeyError))))"

section \<open>Concrete inputs\<close>

text \<open>
  An \<^verbatim>\<open>NpyUnaligned3dDataset\<close> with one file on each side, and collaborators that
  never raise.
\<close>

definition npy_env :: npy_collaborators where
  "npy_env =
     \<lparr>np_load = (\<lambda>p. Inr \<lparr>shape = [2, 2, 2], elem = (\<lambda>i. 0)\<rparr>),
      npy_get_patch_pair = (\<lambda>a b g. Inr ((a, b), g)),
      normalize_from_hu = (\<lambda>a lo hi. a),
      imsave = (\<lambda>tag i a. None)\<rparr>"

definition npy_ds :: npy_dataset where
  "npy_ds =
     \<lparr>A_paths = [[''root'', ''A'', ''a0.npy'']],
      B_paths = [[''root'', ''B'', ''b0.npy'']],
      norm_A = [(''min'', - 1000), (''max'', 1000)],
      norm_B = [(''min'', - 1000), (''max'', 1000)]\<rparr>"

text \<open>
  Modelled from the spec: \<^verbatim>\<open>pad\<close> (\<^verbatim>\<open>midaGAN.data.utils\<close>) is not among the sources.
  The spec's pad policy extends the volume with a constant background value up to the
  patch size on each deficient axis; here the background is \<open>-1024\<close> and the padding
  follows the volume on each axis.
\<close>

definition pad_spec :: "nat list \<Rightarrow> ndarray \<Rightarrow> ndarray" where
  "pad_spec ps a =
     \<lparr>shape = map2 max (shape a) ps @ drop (length ps) (shape a),
      elem = (\<lambda>i. if list_all2 (<) i (shape a) then elem a i else - 1024)\<rparr>"

text \<open>
  The collaborators as the spec describes them, around a given volume I/O provider.
  The scope registrar is the one that keeps the CT as it is (the spec's fallback, and
  what cropping to the CBCT's extent does to a CT that lies within it).
\<close>

definition spec_env :: "(path \<Rightarrow> volume) \<Rightarrow> collaborators" where
  "spec_env ld =
     \<lparr>load = ld,
      truncate_CBCT_based_on_fov = truncate_CBCT_based_on_fov_spec (- 1024),
      truncate_CT_to_scope_of_CBCT = (\<lambda>CT CBCT. CT),
      apply_body_mask_and_bound = apply_body_mask_and_bound_spec,
      get_body_mask_and_bound = get_body_mask_and_bound_spec,
      data_utils_pad = pad_spec\<rparr>"

text \<open>An inference dataset with the default configuration and one scan.\<close>

definition inference_ds :: inference_dataset where
  "inference_ds =
     \<lparr>hu_min = - 1024, hu_max = 2048, apply_mask = False, apply_bound = True,
      cbct_mask_threshold = - 700,
      root_path = [''data''],
      paths = [[''data'', ''p1'', ''CBCT'', ''scan1.nrrd'']]\<rparr>"

text \<open>
  A volume of 3 x 3 x 3 voxels of air with one voxel of 3000 HU, above \<open>hu_max\<close>, and
  one of 500 HU; and metadata for it with the box \<open>[0, 2)\<close> on every axis.
\<close>

definition bright_volume :: ndarray where
  "bright_volume =
     \<lparr>shape = [3, 3, 3],
      elem = (\<lambda>i. if i = [0, 0, 0] then 3000 else if i = [1, 1, 1] then 500 else - 1024)\<rparr>"

definition bright_metadata :: metadata where
  "bright_metadata =
     \<lparr>md_path = [''data'', ''p1'', ''CBCT'', ''scan1.nrrd''],
      md_size = [3, 3, 3],
      md_origin = [0, 0, 0],
      md_spacing = [1, 1, 1],
      md_direction = [1, 0, 0, 0, 1, 0, 0, 0, 1],
      md_dtype = ''int16'',
      md_bounds = ((0, 2), (0, 2), (0, 2))\<rparr>"

text \<open>The voxel at an index of the image \<^verbatim>\<open>save\<close> writes.\<close>

definition voxel_of :: "error + (path \<times> volume) \<Rightarrow> nat list \<Rightarrow> error + real" where
  "voxel_of r i = (case r of Inl e \<Rightarrow> Inl e | Inr w \<Rightarrow> Inr (elem (arr (snd w)) i))"

text \<open>An image with unit spacing at the origin around an array.\<close>

definition scan_of :: "ndarray \<Rightarrow> volume" where
  "scan_of a =
     \<lparr>arr = a, origin = [0, 0, 0], spacing = [1, 1, 1],
      direction = [1, 0, 0, 0, 1, 0, 0, 0, 1], dtype = ''int16''\<rparr>"

text \<open>
  A raw CBCT of 3 x 3 x 3 voxels whose valid content (raw value 1524, that is 500 HU) is
  the corner of 2 x 2 x 2 voxels; the rest is the fill value (raw 0, that is -1024 HU).
\<close>

definition corner_scan :: volume where
  "corner_scan =
     scan_of \<lparr>shape = [3, 3, 3],
              elem = (\<lambda>i. if list_all (\<lambda>k. k < 2) i then 1524 else 0)\<rparr>"

text \<open>
  A raw CBCT of 3 x 3 x 3 voxels, all of it valid content (raw 124, that is -900 HU),
  whose body is the one voxel in the middle (raw 2024, that is 1000 HU).
\<close>

definition small_body_scan :: volume where
  "small_body_scan =
     scan_of \<lparr>shape = [3, 3, 3], elem = (\<lambda>i. if i = [1, 1, 1] then 2024 else 124)\<rparr>"

text \<open>The same dataset with \<^verbatim>\<open>enable_bounding\<close> off.\<close>

definition unbounded_ds :: inference_dataset where
  "unbounded_ds = inference_ds\<lparr>apply_bound := False\<rparr>"

text \<open>
  A training dataset under the replace policy (\<^verbatim>\<open>pad\<close> off) with masking and
  bounding on, a patch of 2 x 2 x 2 voxels and one case with one CBCT and one CT.
\<close>

definition train_ds :: train_dataset where
  "train_ds =
     \<lparr>hu_min = - 1024, hu_max = 2048, apply_mask = True, apply_bound = True,
      cbct_mask_threshold = - 700,
      paths_CBCT = [(''p1'', [[''data'', ''p1'', ''CBCT'', ''scan1.nrrd'']])],
      paths_CT = [(''p1'', [[''data'', ''p1'', ''CT'', ''CT.nrrd'']])],
      num_datapoints = 1,
      patch_size = [2, 2, 2],
      patch_sampler = \<lparr>sampler_patch_size = [2, 2, 2], focal_region_proportion = 2 / 10\<rparr>,
      ct_mask_threshold = - 300,
      pad = False\<rparr>"

text \<open>A CT of 3 x 3 x 3 voxels of 0 HU, all of it body.\<close>

definition tissue_CT :: volume where
  "tissue_CT = scan_of \<lparr>shape = [3, 3, 3], elem = (\<lambda>i. 0)\<rparr>"

text \<open>The volume I/O provider of that dataset: the CT above, and the CBCT with the small body.\<close>

definition train_load :: "path \<Rightarrow> volume" where
  "train_load p =
     (if p = [''data'', ''p1'', ''CT'', ''CT.nrrd''] then tissue_CT else small_body_scan)"

text \<open>Collaborators whose body mask and bounder raises on every volume.\<close>

definition failing_mask_env :: collaborators where
  "failing_mask_env =
     (spec_env train_load)
       \<lparr>apply_body_mask_and_bound := (\<lambda>a am ab t. Inl (CollaboratorError ''degenerate volume''))\<rparr>"

text \<open>
  The same dataset with two CBCT candidates, and a provider whose every volume is a
  single voxel.
\<close>

definition two_scan_ds :: train_dataset where
  "two_scan_ds =
     train_ds\<lparr>paths_CBCT := [(''p1'', [[''data'', ''p1'', ''CBCT'', ''scan1.nrrd''],
                                         [''data'', ''p1'', ''CBCT'', ''scan2.nrrd'']])]\<rparr>"

definition tiny_scan :: volume where
  "tiny_scan = scan_of \<lparr>shape = [1, 1, 1], elem = (\<lambda>i. 0)\<rparr>"

text \<open>
  A sampler with focal proportion 0 and a patch of 2 x 2 x 2 voxels, and a volume of
  4 x 4 x 4 voxels whose voxel at \<open>(z, y, x)\<close> holds \<open>100 z + 10 y + x\<close>.
\<close>

definition center_sampler :: StochasticFocalPatchSampler where
  "center_sampler = \<lparr>sampler_patch_size = [2, 2, 2], focal_region_proportion = 0\<rparr>"

definition coded_volume :: ndarray where
  "coded_volume =
     \<lparr>shape = [4, 4, 4],
      elem = (\<lambda>i. case i of [z, y, x] \<Rightarrow> 100 * real z + 10 * real y + real x | _ \<Rightarrow> 0)\<rparr>"

text \<open>Metadata for the same volume with a box one voxel thick along \<open>y\<close>.\<close>

definition flat_box_metadata :: metadata where
  "flat_box_metadata = bright_metadata\<lparr>md_bounds := ((0, 2), (0, 1), (0, 2))\<rparr>"


section \<open>The Normalizer\<close>



section \<open>Slicing, squeezing and slice assignment on three axes\<close>

lemma upt_0_3: "[0..<3] = [0, 1, 2]"
  by (simp add: upt_rec)

lemma upt_0_2: "[0..<2] = [0, 1]"
  by (simp add: upt_rec)

lemma getitem_slices_3d:
  assumes "shape V = [Z, Y, X]"
  shows "\<exists>c. getitem_slices V [(z0, z1), (y0, y1), (x0, x1)] = Inr c \<and>
     shape c = [min z1 Z - min z0 Z, min y1 Y - min y0 Y, min x1 X - min x0 X] \<and>
     (\<forall>a b d. elem c [a, b, d] = elem V [min z0 Z + a, min y0 Y + b, min x0 X + d])"
  using assms by (simp add: getitem_slices_def slice_len_def slice_start_def)

lemma squeeze_to_tensor_shape:
  "dz \<noteq> 1 \<Longrightarrow> dy \<noteq> 1 \<Longrightarrow> dx \<noteq> 1 \<Longrightarrow> shape c = [dz, dy, dx] \<Longrightarrow>
   shape (squeeze (to_tensor lo hi c)) = [dz, dy, dx]"
  by (simp add: squeeze_def to_tensor_def unsqueeze0_def map_nd_def)

lemma squeeze_to_tensor_elem:
  "dz \<noteq> 1 \<Longrightarrow> dy \<noteq> 1 \<Longrightarrow> dx \<noteq> 1 \<Longrightarrow> shape c = [dz, dy, dx] \<Longrightarrow>
   elem (squeeze (to_tensor lo hi c)) [a, b, d] =
     min_max_normalize (clamp (elem c [a, b, d]) (real_of_int lo) (real_of_int hi))
       (real_of_int lo) (real_of_int hi)"
  by (simp add: squeeze_def to_tensor_def unsqueeze0_def map_nd_def)

lemma setitem_slices_3d:
  assumes "shape src = [z1 - z0, y1 - y0, x1 - x0]"
    and "z1 - z0 \<noteq> 1" "y1 - y0 \<noteq> 1" "x1 - x0 \<noteq> 1"
    and "z0 \<le> z1" "z1 \<le> Z" "y0 \<le> y1" "y1 \<le> Y" "x0 \<le> x1" "x1 \<le> X"
  shows "\<exists>t. setitem_slices (torch_full [Z, Y, X] c) [(z0, z1), (y0, y1), (x0, x1)] src = Inr t \<and>
     shape t = [Z, Y, X] \<and>
     (\<forall>z y x. elem t [z, y, x] =
         (if z0 \<le> z \<and> z < z1 \<and> y0 \<le> y \<and> y < y1 \<and> x0 \<le> x \<and> x < x1
          then elem src [z - z0, y - y0, x - x0] else c))"
  using assms
  by (auto simp add: setitem_slices_def torch_full_def slice_len_def slice_start_def
      broadcastable_def Let_def in_region_def)

lemma denormalize_normalize_affine:
  "lo < hi \<Longrightarrow> min_max_denormalize (min_max_normalize x lo hi) lo hi = x"
  by (simp add: min_max_normalize_def min_max_denormalize_def field_simps)

section \<open>The Reconstructor\<close>

text \<open>
  C3, as the code has it. For every three-dimensional volume \<open>V\<close> and box \<open>B\<close> inside
  its extent with no axis of length exactly one, with \<open>hu_min < hu_max\<close>: cropping
  \<open>V\<close> to \<open>B\<close>, making the tensor of it as \<^verbatim>\<open>__getitem__\<close> does, and reconstructing
  by \<^verbatim>\<open>save\<close> with metadata that hold the size of \<open>V\<close> and \<open>B\<close> gives a canvas of the
  shape of \<open>V\<close> whose voxels are \<open>V\<close>'s, clipped to \<open>[hu_min, hu_max]\<close>, inside \<open>B\<close> and
  \<open>-1024\<close> everywhere else.
\<close>

theorem save_reconstructs_clipped_crop:
  assumes V: "shape V = [Z, Y, X]"
    and box: "z0 \<le> z1" "z1 \<le> Z" "y0 \<le> y1" "y1 \<le> Y" "x0 \<le> x1" "x1 \<le> X"
    and thick: "z1 - z0 \<noteq> 1" "y1 - y0 \<noteq> 1" "x1 - x0 \<noteq> 1"
    and range: "hu_min ds < hu_max ds"
    and md: "md_size md = [X, Y, Z]" "md_bounds md = ((z0, z1), (y0, y1), (x0, x1))"
    and rel: "relative_to (md_path md) (root_path ds) = Some rel"
  shows "\<exists>img. crop_then_save ds V md out = Inr (out @ rel, img) \<and>
          shape (arr img) = [Z, Y, X] \<and>
          (\<forall>z y x. elem (arr img) [z, y, x] =
             (if z0 \<le> z \<and> z < z1 \<and> y0 \<le> y \<and> y < y1 \<and> x0 \<le> x \<and> x < x1
              then clamp (elem V [z, y, x]) (real_of_int (hu_min ds)) (real_of_int (hu_max ds))
              else - 1024))"
proof -
  let ?lo = "real_of_int (hu_min ds)" and ?hi = "real_of_int (hu_max ds)"
  from getitem_slices_3d [OF V, of z0 z1 y0 y1 x0 x1] box
  obtain c where c: "getitem_slices V [(z0, z1), (y0, y1), (x0, x1)] = Inr c"
    and shc: "shape c = [z1 - z0, y1 - y0, x1 - x0]"
    and elc: "\<And>a b d. elem c [a, b, d] = elem V [z0 + a, y0 + b, x0 + d]"
    by (auto simp: min_def)
  let ?t = "map_nd (\<lambda>y. min_max_denormalize y ?lo ?hi)
              (squeeze (to_tensor (hu_min ds) (hu_max ds) c))"
  have sht: "shape ?t = [z1 - z0, y1 - y0, x1 - x0]"
    using squeeze_to_tensor_shape [OF thick shc] by (simp add: map_nd_def)
  have elt: "elem ?t [a, b, d] = clamp (elem V [z0 + a, y0 + b, x0 + d]) ?lo ?hi" for a b d
    using squeeze_to_tensor_elem [OF thick shc, of "hu_min ds" "hu_max ds" a b d] range
    by (simp add: map_nd_def elc denormalize_normalize_affine)
  from setitem_slices_3d [OF sht thick box, of "- 1024"]
  obtain full where
    full: "setitem_slices (torch_full [Z, Y, X] (- 1024)) [(z0, z1), (y0, y1), (x0, x1)] ?t
             = Inr full"
    and shf: "shape full = [Z, Y, X]"
    and elf: "\<And>z y x. elem full [z, y, x] =
         (if z0 \<le> z \<and> z < z1 \<and> y0 \<le> y \<and> y < y1 \<and> x0 \<le> x \<and> x < x1
          then elem ?t [z - z0, y - y0, x - x0] else - 1024)"
    by blast
  let ?img = "tensor_to_sitk_image full (md_origin md) (md_spacing md) (md_direction md)
                (md_dtype md)"
  have "crop_then_save ds V md out = Inr (out @ rel, ?img)"
    using c full md rel by (simp add: crop_then_save_def save_def bounds_list_def Let_def)
  moreover have "shape (arr ?img) = [Z, Y, X]"
    by (simp add: tensor_to_sitk_image_def shf)
  moreover have "elem (arr ?img) [z, y, x] =
             (if z0 \<le> z \<and> z < z1 \<and> y0 \<le> y \<and> y < y1 \<and> x0 \<le> x \<and> x < x1
              then clamp (elem V [z, y, x]) ?lo ?hi else - 1024)" for z y x
    by (simp add: tensor_to_sitk_image_def elf elt)
  ultimately show ?thesis by blast
qed

theorem save_reconstructs_clipped_crop_witness:
  "\<exists>img. crop_then_save inference_ds bright_volume bright_metadata [''out'']
            = Inr ([''out'', ''p1'', ''CBCT'', ''scan1.nrrd''], img)
     \<and> shape (arr img) = [3, 3, 3]
     \<and> elem (arr img) [1, 1, 1] = 500
     \<and> elem (arr img) [0, 0, 0] = 2048
     \<and> elem (arr img) [2, 2, 2] = - 1024"
proof -
  have "shape bright_volume = [3, 3, 3]" "hu_min inference_ds < hu_max inference_ds"
    "md_size bright_metadata = [3, 3, 3]"
    "md_bounds bright_metadata = ((0, 2), (0, 2), (0, 2))"
    "relative_to (md_path bright_metadata) (root_path inference_ds)
       = Some [''p1'', ''CBCT'', ''scan1.nrrd'']"
    by (simp_all add: bright_volume_def inference_ds_def bright_metadata_def)
  from save_reconstructs_clipped_crop
         [where V = bright_volume and Z = 3 and Y = 3 and X = 3
            and ?z0.0 = 0 and ?z1.0 = 2 and ?y0.0 = 0 and ?y1.0 = 2 and ?x0.0 = 0 and ?x1.0 = 2
            and ds = inference_ds and md = bright_metadata
            and rel = "[''p1'', ''CBCT'', ''scan1.nrrd'']" and out = "[''out'']"]
       this
  obtain img where
    "crop_then_save inference_ds bright_volume bright_metadata [''out'']
       = Inr ([''out''] @ [''p1'', ''CBCT'', ''scan1.nrrd''], img)"
    "shape (arr img) = [3, 3, 3]"
    "\<And>z y x. elem (arr img) [z, y, x] =
       (if 0 \<le> z \<and> z < 2 \<and> 0 \<le> y \<and> y < 2 \<and> 0 \<le> x \<and> x < 2
        then clamp (elem bright_volume [z, y, x]) (real_of_int (hu_min inference_ds))
               (real_of_int (hu_max inference_ds))
        else - 1024)"
    by auto
  then show ?thesis
    by (intro exI [of _ img]) (simp add: bright_volume_def inference_ds_def clamp_def)
qed

text \<open>
  The claim as the spec states it fails on a voxel outside the HU range: the voxel of
  3000 HU inside the box comes back as 2048.
\<close>

theorem save_clips_bright_voxel:
  "voxel_of (crop_then_save inference_ds bright_volume bright_metadata [''out'']) [0, 0, 0]
     = Inr 2048
   \<and> elem bright_volume [0, 0, 0] = 3000"
  by (simp add: voxel_of_def crop_then_save_def inference_ds_def bright_volume_def
      bright_metadata_def bounds_list_def getitem_slices_def slice_len_def slice_start_def
      save_def to_tensor_def map_nd_def unsqueeze0_def squeeze_def setitem_slices_def
      torch_full_def broadcastable_def in_region_def tensor_to_sitk_image_def clamp_def
      min_max_normalize_def min_max_denormalize_def Let_def)

text \<open>
  A box with an axis of length one that is not the first: \<^verbatim>\<open>squeeze()\<close> drops that
  axis with the channel axis, the tensor of shape \<open>(2, 2)\<close> does not broadcast to the
  region of shape \<open>(2, 1, 2)\<close>, and \<^verbatim>\<open>save\<close> raises.
\<close>

lemma save_raises_on_unit_axis:
  "crop_then_save inference_ds bright_volume flat_box_metadata [''out'']
     = Inl (RuntimeError ''The expanded size of the tensor must match the existing size'')"
  by (simp add: crop_then_save_def inference_ds_def bright_volume_def flat_box_metadata_def
      bright_metadata_def bounds_list_def getitem_slices_def slice_len_def slice_start_def
      save_def to_tensor_def map_nd_def unsqueeze0_def squeeze_def setitem_slices_def
      torch_full_def broadcastable_def Let_def)

section \<open>CBCTtoCTInferenceDataset: metadata, tensor and canvas\<close>

lemma inference_getitem_metadata:
  assumes "inference_getitem env ds index = Inr (t, md)"
  shows "md = \<lparr>md_path = paths ds ! index,
               md_size = GetSize (load_and_truncate env (paths ds ! index)),
               md_origin = origin (load_and_truncate env (paths ds ! index)),
               md_spacing = spacing (load_and_truncate env (paths ds ! index)),
               md_direction = direction (load_and_truncate env (paths ds ! index)),
               md_dtype = dtype (load_and_truncate env (paths ds ! index)),
               md_bounds = snd (get_body_mask_and_bound env
                                  (get_npy (load_and_truncate env (paths ds ! index)))
                                  (cbct_mask_threshold ds))\<rparr>"
  using assms
  by (auto simp: inference_getitem_def Let_def get_npy_dtype_def split: if_splits sum.splits)

lemma inference_getitem_shape:
  assumes run: "inference_getitem env ds index = Inr (t, md)"
    and vol: "shape (get_npy (load_and_truncate env (paths ds ! index))) = [Z, Y, X]"
    and b: "snd (get_body_mask_and_bound env (get_npy (load_and_truncate env (paths ds ! index)))
                  (cbct_mask_threshold ds)) = ((z0, z1), (y0, y1), (x0, x1))"
    and box: "z0 \<le> z1" "z1 \<le> Z" "y0 \<le> y1" "y1 \<le> Y" "x0 \<le> x1" "x1 \<le> X"
  shows "shape t = (if apply_bound ds then [1, z1 - z0, y1 - y0, x1 - x0] else [1, Z, Y, X])"
  using assms
  by (auto simp: inference_getitem_def Let_def to_tensor_def unsqueeze0_def map_nd_def
      np_where_def getitem_slices_def bounds_list_def slice_len_def min_def
      split: if_splits sum.splits)

lemma no_ones_map2:
  "1 \<notin> set s \<Longrightarrow> map2 (\<lambda>d j. if d = 1 then 0 else j) s js = take (length s) js"
proof (induction s arbitrary: js)
  case Nil
  then show ?case by simp
next
  case (Cons d ds)
  then show ?case by (cases js) auto
qed

lemma setitem_slices_box:
  assumes ok: "setitem_slices (torch_full [Z, Y, X] c) [(z0, z1), (y0, y1), (x0, x1)] src = Inr full"
    and box: "z0 \<le> z1" "z1 \<le> Z" "y0 \<le> y1" "y1 \<le> Y" "x0 \<le> x1" "x1 \<le> X"
    and ones: "1 \<notin> set (shape src)"
  shows "shape full = [Z, Y, X] \<and>
     (\<forall>z y x. elem full [z, y, x] =
         (if z0 \<le> z \<and> z < z1 \<and> y0 \<le> y \<and> y < y1 \<and> x0 \<le> x \<and> x < x1
          then elem src (drop (3 - length (shape src)) [z - z0, y - y0, x - x0]) else c))"
proof -
  have tw: "takeWhile (\<lambda>d. d = 1) (shape src) = []"
    using ones by (cases "shape src") auto
  have m2: "map2 (\<lambda>d j. if d = 1 then 0 else j) (shape src) js = take (length (shape src)) js"
    for js :: "nat list"
    using ones by (rule no_ones_map2)
  note ok' = ok [unfolded setitem_slices_def Let_def tw list.size drop_0 m2]
  have bc: "broadcastable (shape src) [z1 - z0, y1 - y0, x1 - x0]"
    using ok' box
    by (auto simp: torch_full_def slice_len_def slice_start_def min_def split: if_splits)
  then have len: "length (shape src) \<le> 3"
    by (simp add: broadcastable_def)
  have tk: "take (length (shape src)) (drop (3 - length (shape src)) [a, b, d])
              = drop (3 - length (shape src)) [a, b, d]" for a b d :: nat
    using len by simp
  have shp: "shape full = [Z, Y, X]"
    using ok' by (auto simp: torch_full_def split: if_splits)
  have "elem full [z, y, x] =
         (if z0 \<le> z \<and> z < z1 \<and> y0 \<le> y \<and> y < y1 \<and> x0 \<le> x \<and> x < x1
          then elem src (drop (3 - length (shape src)) [z - z0, y - y0, x - x0]) else c)"
    for z y x
    using ok' box bc tk [of "z - z0" "y - y0" "x - x0"]
    by (auto simp: torch_full_def slice_len_def slice_start_def min_def in_region_def
        numeral_3_eq_3 split: if_splits)
  with shp show ?thesis by blast
qed

lemma save_box:
  assumes ok: "save ds t' md out = Inr (p, img)"
    and sz: "md_size md = [X, Y, Z]"
    and b: "md_bounds md = ((z0, z1), (y0, y1), (x0, x1))"
    and box: "z0 \<le> z1" "z1 \<le> Z" "y0 \<le> y1" "y1 \<le> Y" "x0 \<le> x1" "x1 \<le> X"
  shows "shape (arr img) = [Z, Y, X] \<and>
     (\<forall>z y x. elem (arr img) [z, y, x] =
         (if z0 \<le> z \<and> z < z1 \<and> y0 \<le> y \<and> y < y1 \<and> x0 \<le> x \<and> x < x1
          then min_max_denormalize
                 (elem (squeeze t') (drop (3 - length (shape (squeeze t'))) [z - z0, y - y0, x - x0]))
                 (real_of_int (hu_min ds)) (real_of_int (hu_max ds))
          else - 1024))"
proof -
  let ?src = "map_nd (\<lambda>y. min_max_denormalize y (real_of_int (hu_min ds)) (real_of_int (hu_max ds)))
                (squeeze t')"
  from ok sz b obtain full where
    full: "setitem_slices (torch_full [Z, Y, X] (- 1024)) [(z0, z1), (y0, y1), (x0, x1)] ?src = Inr full"
    and img: "arr img = full"
    by (auto simp: save_def Let_def bounds_list_def tensor_to_sitk_image_def
        split: sum.splits option.splits)
  have "1 \<notin> set (shape ?src)"
    by (simp add: map_nd_def squeeze_def)
  from setitem_slices_box [OF full box this] show ?thesis
    by (simp add: img map_nd_def)
qed

text \<open>
  C4, as the code has it. The metadata an inference item returns are exactly seven
  values: the path of the file, the size, origin, spacing, direction and dtype of the
  volume after 1024 was subtracted and the field of view was truncated (not of the
  volume as loaded), and the box of the body mask of that volume. Nothing else goes
  from \<^verbatim>\<open>__getitem__\<close> to \<^verbatim>\<open>save\<close>.
\<close>

theorem metadata_records_truncated_volume:
  assumes "inference_getitem env ds index = Inr (t, md)"
  shows "md = \<lparr>md_path = paths ds ! index,
               md_size = GetSize (load_and_truncate env (paths ds ! index)),
               md_origin = origin (load_and_truncate env (paths ds ! index)),
               md_spacing = spacing (load_and_truncate env (paths ds ! index)),
               md_direction = direction (load_and_truncate env (paths ds ! index)),
               md_dtype = dtype (load_and_truncate env (paths ds ! index)),
               md_bounds = snd (get_body_mask_and_bound env
                                  (get_npy (load_and_truncate env (paths ds ! index)))
                                  (cbct_mask_threshold ds))\<rparr>"
  using assms by (rule inference_getitem_metadata)

lemma corner_box:
  "bounding_box (\<lambda>i. - 1024 < elem (arr (vol_sub corner_scan 1024)) i) [3, 3, 3]
     = ((0, 2), (0, 2), (0, 2))"
  by (simp add: bounding_box_def foreground_range_def corner_scan_def scan_of_def vol_sub_def
      map_nd_def upt_0_3 Let_def)

lemma corner_truncated:
  "shape (arr (load_and_truncate (spec_env (\<lambda>p. corner_scan)) q)) = [2, 2, 2]"
  "elem (arr (load_and_truncate (spec_env (\<lambda>p. corner_scan)) q)) [z, y, x]
     = (if z < 2 \<and> y < 2 \<and> x < 2 then 500 else - 1024)"
  "origin (load_and_truncate (spec_env (\<lambda>p. corner_scan)) q) = [0, 0, 0]"
proof -
  have "shape (arr (vol_sub corner_scan 1024)) = [3, 3, 3]"
    by (simp add: corner_scan_def scan_of_def vol_sub_def map_nd_def)
  then show "shape (arr (load_and_truncate (spec_env (\<lambda>p. corner_scan)) q)) = [2, 2, 2]"
    "elem (arr (load_and_truncate (spec_env (\<lambda>p. corner_scan)) q)) [z, y, x]
     = (if z < 2 \<and> y < 2 \<and> x < 2 then 500 else - 1024)"
    "origin (load_and_truncate (spec_env (\<lambda>p. corner_scan)) q) = [0, 0, 0]"
    by (simp_all add: load_and_truncate_def spec_env_def truncate_CBCT_based_on_fov_spec_def
        corner_box bounds_list_def getitem_slices_def slice_len_def slice_start_def)
       (simp_all add: corner_scan_def scan_of_def vol_sub_def map_nd_def)
qed

lemma corner_body_box:
  "snd (get_body_mask_and_bound (spec_env ld)
         (get_npy (load_and_truncate (spec_env (\<lambda>p. corner_scan)) q)) (- 700))
     = ((0, 2), (0, 2), (0, 2))"
proof -
  have "get_body_mask_and_bound (spec_env ld) = get_body_mask_and_bound_spec"
    by (simp add: spec_env_def)
  then show ?thesis
    by (simp add: get_body_mask_and_bound_spec_def get_npy_def corner_truncated
        bounding_box_def foreground_range_def upt_0_2 Let_def)
qed

text \<open>
  The claim as the spec states it fails on a scan whose field of view is truncated: the
  size recorded is that of the truncated volume, not the size of the volume loaded.
\<close>

theorem metadata_size_is_not_the_loaded_size:
  "map_sum id (md_size \<circ> snd) (inference_getitem (spec_env (\<lambda>p. corner_scan)) inference_ds 0)
     = Inr [2, 2, 2]
   \<and> GetSize (load (spec_env (\<lambda>p. corner_scan)) (paths inference_ds ! 0)) = [3, 3, 3]"
proof -
  have "length (shape (get_npy (load_and_truncate (spec_env (\<lambda>p. corner_scan)) q))) = 3" for q
    by (simp add: get_npy_def corner_truncated)
  then show ?thesis
    by (simp add: inference_getitem_def corner_truncated GetSize_def Let_def inference_ds_def
        getitem_slices_def bounds_list_def np_where_def)
       (simp add: spec_env_def corner_scan_def scan_of_def)
qed

lemma corner_run:
  "\<exists>t md. inference_getitem (spec_env (\<lambda>p. corner_scan)) inference_ds 0 = Inr (t, md)"
  "\<exists>t md. inference_getitem (spec_env (\<lambda>p. corner_scan)) unbounded_ds 0 = Inr (t, md)"
  by (simp_all add: inference_getitem_def Let_def inference_ds_def unbounded_ds_def
      getitem_slices_def bounds_list_def get_npy_def corner_truncated)

theorem metadata_records_truncated_volume_witness:
  "\<exists>t md. inference_getitem (spec_env (\<lambda>p. corner_scan)) inference_ds 0 = Inr (t, md)
     \<and> md_path md = [''data'', ''p1'', ''CBCT'', ''scan1.nrrd'']
     \<and> md_size md = [2, 2, 2]
     \<and> md_origin md = [0, 0, 0]
     \<and> md_dtype md = ''int16''
     \<and> md_bounds md = ((0, 2), (0, 2), (0, 2))"
proof -
  from corner_run(1) obtain t md where
    run: "inference_getitem (spec_env (\<lambda>p. corner_scan)) inference_ds 0 = Inr (t, md)"
    by blast
  have thr: "cbct_mask_threshold inference_ds = - 700"
    and p: "paths inference_ds ! 0 = [''data'', ''p1'', ''CBCT'', ''scan1.nrrd'']"
    by (simp_all add: inference_ds_def)
  have dt: "dtype (load_and_truncate (spec_env (\<lambda>p. corner_scan)) q) = ''int16''" for q
    by (simp add: load_and_truncate_def spec_env_def truncate_CBCT_based_on_fov_spec_def
        corner_scan_def scan_of_def vol_sub_def split: sum.splits)
  from metadata_records_truncated_volume [OF run]
  have "md_path md = [''data'', ''p1'', ''CBCT'', ''scan1.nrrd'']
     \<and> md_size md = [2, 2, 2] \<and> md_origin md = [0, 0, 0] \<and> md_dtype md = ''int16''
     \<and> md_bounds md = ((0, 2), (0, 2), (0, 2))"
    by (simp add: thr p corner_body_box GetSize_def corner_truncated dt)
  with run show ?thesis by blast
qed

text \<open>
  C9, as the code has it. For an inference item on a three-dimensional volume whose
  body-mask box lies inside the volume: the last element of the metadata is that box,
  whether \<^verbatim>\<open>enable_bounding\<close> is on or off; the tensor has the box's shape (after
  the channel axis) when \<^verbatim>\<open>enable_bounding\<close> is on and the whole volume's shape when
  it is off, so it matches the box exactly when \<^verbatim>\<open>enable_bounding\<close> is on or the box
  is the whole volume; and whenever \<^verbatim>\<open>save\<close> returns, for whatever tensor, the canvas
  has the volume's shape, holds \<open>-1024\<close> outside the box and the denormalized
  (squeezed, broadcast) tensor inside it.
\<close>

theorem recorded_box_and_tensor_shape:
  assumes run: "inference_getitem env ds index = Inr (t, md)"
    and vol: "shape (get_npy (load_and_truncate env (paths ds ! index))) = [Z, Y, X]"
    and b: "snd (get_body_mask_and_bound env (get_npy (load_and_truncate env (paths ds ! index)))
                  (cbct_mask_threshold ds)) = ((z0, z1), (y0, y1), (x0, x1))"
    and box: "z0 \<le> z1" "z1 \<le> Z" "y0 \<le> y1" "y1 \<le> Y" "x0 \<le> x1" "x1 \<le> X"
  shows "md_bounds md = ((z0, z1), (y0, y1), (x0, x1))
     \<and> shape t = (if apply_bound ds then [1, z1 - z0, y1 - y0, x1 - x0] else [1, Z, Y, X])
     \<and> (shape t = [1, z1 - z0, y1 - y0, x1 - x0]
          \<longleftrightarrow> apply_bound ds \<or> (z0 = 0 \<and> z1 = Z \<and> y0 = 0 \<and> y1 = Y \<and> x0 = 0 \<and> x1 = X))
     \<and> (\<forall>t' out p img. save ds t' md out = Inr (p, img) \<longrightarrow>
           shape (arr img) = [Z, Y, X] \<and>
           (\<forall>z y x. elem (arr img) [z, y, x] =
              (if z0 \<le> z \<and> z < z1 \<and> y0 \<le> y \<and> y < y1 \<and> x0 \<le> x \<and> x < x1
               then min_max_denormalize
                      (elem (squeeze t')
                         (drop (3 - length (shape (squeeze t'))) [z - z0, y - y0, x - x0]))
                      (real_of_int (hu_min ds)) (real_of_int (hu_max ds))
               else - 1024)))"
proof -
  note md = inference_getitem_metadata [OF run]
  have mb: "md_bounds md = ((z0, z1), (y0, y1), (x0, x1))"
    by (subst md) (simp add: b)
  have sz: "md_size md = [X, Y, Z]"
    using vol by (subst md) (simp add: GetSize_def get_npy_def)
  note sh = inference_getitem_shape [OF run vol b box]
  have iff: "shape t = [1, z1 - z0, y1 - y0, x1 - x0]
          \<longleftrightarrow> apply_bound ds \<or> (z0 = 0 \<and> z1 = Z \<and> y0 = 0 \<and> y1 = Y \<and> x0 = 0 \<and> x1 = X)"
    using box by (auto simp: sh)
  have sv: "shape (arr img) = [Z, Y, X] \<and>
           (\<forall>z y x. elem (arr img) [z, y, x] =
              (if z0 \<le> z \<and> z < z1 \<and> y0 \<le> y \<and> y < y1 \<and> x0 \<le> x \<and> x < x1
               then min_max_denormalize
                      (elem (squeeze t')
                         (drop (3 - length (shape (squeeze t'))) [z - z0, y - y0, x - x0]))
                      (real_of_int (hu_min ds)) (real_of_int (hu_max ds))
               else - 1024))"
    if "save ds t' md out = Inr (p, img)" for t' out p img
    using save_box [OF that sz mb box] .
  from mb sh iff sv show ?thesis by blast
qed

text \<open>
  The claim as stated fails where the body fills the whole (truncated) volume: with
  \<^verbatim>\<open>enable_bounding\<close> off the tensor's shape still matches the recorded box.
\<close>

theorem unbounded_tensor_matches_whole_box:
  "\<not> apply_bound unbounded_ds
   \<and> map_sum id (shape \<circ> fst) (inference_getitem (spec_env (\<lambda>p. corner_scan)) unbounded_ds 0)
       = Inr [1, 2, 2, 2]
   \<and> map_sum id (md_bounds \<circ> snd) (inference_getitem (spec_env (\<lambda>p. corner_scan)) unbounded_ds 0)
       = Inr ((0, 2), (0, 2), (0, 2))"
proof -
  have thr: "cbct_mask_threshold unbounded_ds = - 700" "\<not> apply_bound unbounded_ds"
    "\<not> apply_mask unbounded_ds" "paths unbounded_ds = [[''data'', ''p1'', ''CBCT'', ''scan1.nrrd'']]"
    by (simp_all add: unbounded_ds_def inference_ds_def)
  show ?thesis
    by (simp add: inference_getitem_def Let_def thr corner_body_box [unfolded get_npy_def]
        get_npy_def to_tensor_def unsqueeze0_def map_nd_def corner_truncated)
qed

lemma small_box:
  "bounding_box (\<lambda>i. - 1024 < elem (arr (vol_sub small_body_scan 1024)) i) [3, 3, 3]
     = ((0, 3), (0, 3), (0, 3))"
  by (simp add: bounding_box_def foreground_range_def small_body_scan_def scan_of_def vol_sub_def
      map_nd_def upt_0_3 Let_def)

lemma small_truncated:
  "shape (arr (load_and_truncate (spec_env (\<lambda>p. small_body_scan)) q)) = [3, 3, 3]"
  "elem (arr (load_and_truncate (spec_env (\<lambda>p. small_body_scan)) q)) [z, y, x]
     = (if [z, y, x] = [1, 1, 1] then 1000 else - 900)"
proof -
  have "shape (arr (vol_sub small_body_scan 1024)) = [3, 3, 3]"
    by (simp add: small_body_scan_def scan_of_def vol_sub_def map_nd_def)
  then show "shape (arr (load_and_truncate (spec_env (\<lambda>p. small_body_scan)) q)) = [3, 3, 3]"
    "elem (arr (load_and_truncate (spec_env (\<lambda>p. small_body_scan)) q)) [z, y, x]
     = (if [z, y, x] = [1, 1, 1] then 1000 else - 900)"
    by (simp_all add: load_and_truncate_def spec_env_def truncate_CBCT_based_on_fov_spec_def
        small_box bounds_list_def getitem_slices_def slice_len_def slice_start_def)
       (simp_all add: small_body_scan_def scan_of_def vol_sub_def map_nd_def)
qed

lemma small_body_box:
  "snd (get_body_mask_and_bound (spec_env ld)
         (get_npy (load_and_truncate (spec_env (\<lambda>p. small_body_scan)) q)) (- 700))
     = ((1, 2), (1, 2), (1, 2))"
proof -
  have "get_body_mask_and_bound (spec_env ld) = get_body_mask_and_bound_spec"
    by (simp add: spec_env_def)
  then show ?thesis
    by (simp add: get_body_mask_and_bound_spec_def get_npy_def small_truncated
        bounding_box_def foreground_range_def upt_0_3 Let_def)
qed

theorem recorded_box_and_tensor_shape_witness:
  "\<exists>t md. inference_getitem (spec_env (\<lambda>p. small_body_scan)) unbounded_ds 0 = Inr (t, md)
     \<and> \<not> apply_bound unbounded_ds
     \<and> md_bounds md = ((1, 2), (1, 2), (1, 2))
     \<and> shape t = [1, 3, 3, 3]
     \<and> shape t \<noteq> [1, 2 - 1, 2 - 1, 2 - 1]"
proof -
  have thr: "cbct_mask_threshold unbounded_ds = - 700" "\<not> apply_bound unbounded_ds"
    "\<not> apply_mask unbounded_ds" "paths unbounded_ds ! 0 = [''data'', ''p1'', ''CBCT'', ''scan1.nrrd'']"
    "paths unbounded_ds \<noteq> []"
    by (simp_all add: unbounded_ds_def inference_ds_def)
  have "\<exists>t md. inference_getitem (spec_env (\<lambda>p. small_body_scan)) unbounded_ds 0 = Inr (t, md)"
    by (simp add: inference_getitem_def Let_def thr)
  then obtain t md where
    run: "inference_getitem (spec_env (\<lambda>p. small_body_scan)) unbounded_ds 0 = Inr (t, md)"
    by blast
  have vol: "shape (get_npy (load_and_truncate (spec_env (\<lambda>p. small_body_scan))
                      (paths unbounded_ds ! 0))) = [3, 3, 3]"
    by (simp add: get_npy_def small_truncated)
  have b: "snd (get_body_mask_and_bound (spec_env (\<lambda>p. small_body_scan))
                  (get_npy (load_and_truncate (spec_env (\<lambda>p. small_body_scan))
                     (paths unbounded_ds ! 0)))
                  (cbct_mask_threshold unbounded_ds)) = ((1, 2), (1, 2), (1, 2))"
    by (simp add: thr(1) small_body_box)
  from recorded_box_and_tensor_shape [OF run vol b] thr(2)
  have "md_bounds md = ((1, 2), (1, 2), (1, 2)) \<and> shape t = [1, 3, 3, 3]"
    by simp
  with run thr(2) show ?thesis by auto
qed

section \<open>CBCTtoCTDataset.__getitem__\<close>

text \<open>
  C7. For a training item that reaches the \<^verbatim>\<open>try\<close> blocks with the arrays \<open>a\<close>
  (CBCT) and \<open>b\<close> (CT): if \<^verbatim>\<open>apply_body_mask_and_bound\<close> raises on one of them,
  \<^verbatim>\<open>__getitem__\<close> logs the error with the path of the file and goes on with that
  array as it was, unmasked and unbounded: what it returns is what padding (if
  enabled), patch sampling and normalization make of the unmodified array and of the
  other one. The exception of the masking never leaves \<^verbatim>\<open>__getitem__\<close>.
\<close>

theorem masking_failure_is_logged_and_skipped:
  assumes prep: "prepare env ds index g = Inr (path_CBCT, path_CT, a, b, lg, g')"
  shows "(apply_body_mask_and_bound env a (apply_mask ds) (apply_bound ds) (cbct_mask_threshold ds)
            = Inl e \<longrightarrow>
          getitem env ds index g =
            (lg @ [LogError ''Error applying mask and bound in file : '' path_CBCT]
                @ snd (try_mask_and_bound env ds (ct_mask_threshold ds) path_CT b),
             sample_and_normalize ds
               (pad_if_enabled env ds a)
               (pad_if_enabled env ds (fst (try_mask_and_bound env ds (ct_mask_threshold ds) path_CT b)))
               g'))
       \<and> (apply_body_mask_and_bound env b (apply_mask ds) (apply_bound ds) (ct_mask_threshold ds)
            = Inl e \<longrightarrow>
          getitem env ds index g =
            (lg @ snd (try_mask_and_bound env ds (cbct_mask_threshold ds) path_CBCT a)
                @ [LogError ''Error applying mask and bound in file : '' path_CT],
             sample_and_normalize ds
               (pad_if_enabled env ds (fst (try_mask_and_bound env ds (cbct_mask_threshold ds) path_CBCT a)))
               (pad_if_enabled env ds b)
               g'))"
  using prep
  by (simp add: getitem_def sampler_inputs_def try_mask_and_bound_def Let_def)

lemma replace_loop_exhausted:
  "is_volume_smaller_than v ps \<Longrightarrow>
   (\<forall>p \<in> set cands. is_volume_smaller_than (ld p) ps) \<Longrightarrow>
   fst (replace_loop ld ps v cands g) = None"
proof (induction ld ps v cands g rule: replace_loop.induct)
  case (1 ld ps v cands g)
  show ?case
  proof (cases "cands = []")
    case True
    with "1.prems" show ?thesis
      by (subst replace_loop.simps) simp
  next
    case False
    let ?k = "fst (draw g) mod length cands"
    have k: "?k < length cands" using False by simp
    then have v': "is_volume_smaller_than (ld (cands ! ?k)) ps"
      using "1.prems"(2) by simp
    have "set (take ?k cands @ drop (Suc ?k) cands) \<subseteq> set cands"
      by (auto dest: in_set_takeD in_set_dropD)
    with "1.prems"(2)
    have rest: "\<forall>p \<in> set (take ?k cands @ drop (Suc ?k) cands). is_volume_smaller_than (ld p) ps"
      by blast
    from "1.IH" [OF _ False v' rest] "1.prems"(1) False show ?thesis
      by (subst replace_loop.simps) simp
  qed
qed

lemma choice_in_set: "choice xs g = Inr (x, g') \<Longrightarrow> x \<in> set xs"
  by (auto simp: choice_def split: if_splits)

lemma pick_paths_in_set:
  assumes "pick_paths ds index g = Inr (pc, pt, path_CBCT, path_CT, g1)"
  shows "path_CBCT \<in> set pc \<and> path_CT \<in> set pt"
  using assms
  by (auto simp: pick_paths_def Let_def split: if_splits option.splits sum.splits
      dest: choice_in_set)

text \<open>
  C6. Under the replace policy (\<^verbatim>\<open>pad\<close> off), if every candidate volume of the
  item's case is smaller than the patch on some axis, for the CBCT or for the CT, so
  that the candidate list is used up without a valid volume, \<^verbatim>\<open>__getitem__\<close>
  raises the \<^verbatim>\<open>RuntimeError\<close> of line 104 and returns no patch pair.
\<close>

theorem getitem_raises_when_candidates_exhausted:
  assumes nopad: "\<not> pad ds"
    and pick: "pick_paths ds index g = Inr (pc, pt, path_CBCT, path_CT, g1)"
    and small: "(\<forall>p \<in> set pc. is_volume_smaller_than (load env p) (patch_size ds))
              \<or> (\<forall>p \<in> set pt. is_volume_smaller_than (load env p) (patch_size ds))"
  shows "getitem env ds index g
           = ([], Inl (RuntimeError ''Suitable replacement volume could not be found!''))"
proof -
  from pick_paths_in_set [OF pick] have mem: "path_CBCT \<in> set pc" "path_CT \<in> set pt"
    by simp_all
  have none: "fst (size_invalid_check_and_replace (load env) (load env path_CBCT) (patch_size ds)
               pc path_CBCT g1) = None
      \<or> fst (size_invalid_check_and_replace (load env) (load env path_CT) (patch_size ds)
               pt path_CT g2) = None" for g2
    using small
  proof
    assume a: "\<forall>p \<in> set pc. is_volume_smaller_than (load env p) (patch_size ds)"
    then have "\<forall>p \<in> set (remove1 path_CBCT pc). is_volume_smaller_than (load env p) (patch_size ds)"
      by (auto dest: notin_set_remove1)
    with a mem(1) show ?thesis
      by (simp add: size_invalid_check_and_replace_def replace_loop_exhausted)
  next
    assume a: "\<forall>p \<in> set pt. is_volume_smaller_than (load env p) (patch_size ds)"
    then have "\<forall>p \<in> set (remove1 path_CT pt). is_volume_smaller_than (load env p) (patch_size ds)"
      by (auto dest: notin_set_remove1)
    with a mem(2) show ?thesis
      by (simp add: size_invalid_check_and_replace_def replace_loop_exhausted)
  qed
  have "load_and_guard env ds pc pt path_CBCT path_CT g1
               = Inl (RuntimeError ''Suitable replacement volume could not be found!'')"
    using nopad
      none [of "snd (size_invalid_check_and_replace (load env) (load env path_CBCT)
                       (patch_size ds) pc path_CBCT g1)"]
    by (auto simp: load_and_guard_def Let_def split: option.splits)
  then show ?thesis
    using pick by (simp add: getitem_def sampler_inputs_def prepare_def)
qed

subsection \<open>A training item, stage by stage\<close>

lemma small_fov:
  "shape (arr (truncate_CBCT_based_on_fov_spec (- 1024) (vol_sub small_body_scan 1024))) = [3, 3, 3]"
  "elem (arr (truncate_CBCT_based_on_fov_spec (- 1024) (vol_sub small_body_scan 1024))) [z, y, x]
     = (if [z, y, x] = [1, 1, 1] then 1000 else - 900)"
  using small_truncated(1) [where q = "[]"] small_truncated(2) [where q = "[]" and z = z and y = y and x = x]
  by (simp_all add: load_and_truncate_def spec_env_def)

lemma spec_env_fields:
  "load (spec_env ld) = ld"
  "truncate_CBCT_based_on_fov (spec_env ld) = truncate_CBCT_based_on_fov_spec (- 1024)"
  "truncate_CT_to_scope_of_CBCT (spec_env ld) = (\<lambda>CT CBCT. CT)"
  "apply_body_mask_and_bound (spec_env ld) = apply_body_mask_and_bound_spec"
  "get_body_mask_and_bound (spec_env ld) = get_body_mask_and_bound_spec"
  "data_utils_pad (spec_env ld) = pad_spec"
  by (simp_all add: spec_env_def)

lemma failing_env_fields:
  "load failing_mask_env = train_load"
  "truncate_CBCT_based_on_fov failing_mask_env = truncate_CBCT_based_on_fov_spec (- 1024)"
  "truncate_CT_to_scope_of_CBCT failing_mask_env = (\<lambda>CT CBCT. CT)"
  "apply_body_mask_and_bound failing_mask_env
     = (\<lambda>a am ab t. Inl (CollaboratorError ''degenerate volume''))"
  by (simp_all add: failing_mask_env_def spec_env_def)

lemma train_ds_fields:
  "pad train_ds = False" "patch_size train_ds = [2, 2, 2]" "apply_bound train_ds = True"
  "apply_mask train_ds = True" "cbct_mask_threshold train_ds = - 700"
  "ct_mask_threshold train_ds = - 300" "hu_min train_ds = - 1024" "hu_max train_ds = 2048"
  "patch_sampler train_ds = \<lparr>sampler_patch_size = [2, 2, 2], focal_region_proportion = 2 / 10\<rparr>"
  by (simp_all add: train_ds_def)

lemma train_pick:
  "pick_paths train_ds 0 [] =
     Inr ([[''data'', ''p1'', ''CBCT'', ''scan1.nrrd'']], [[''data'', ''p1'', ''CT'', ''CT.nrrd'']],
          [''data'', ''p1'', ''CBCT'', ''scan1.nrrd''], [''data'', ''p1'', ''CT'', ''CT.nrrd''], [])"
  by (simp add: pick_paths_def train_ds_def choice_def Let_def)

lemma not_smaller_3: "\<not> smaller_than [3, 3, 3] [2, 2, 2]"
  by (simp add: smaller_than_def)

lemma replace_loop_valid:
  "\<not> is_volume_smaller_than v ps \<Longrightarrow> replace_loop ld ps v cands g = (Some v, g)"
  by (subst replace_loop.simps) simp

lemma train_prepare:
  assumes ld: "load env = train_load"
    and tr: "truncate_CBCT_based_on_fov env = truncate_CBCT_based_on_fov_spec (- 1024)"
    and rg: "truncate_CT_to_scope_of_CBCT env = (\<lambda>CT CBCT. CT)"
  shows "prepare env train_ds 0 [] =
     Inr ([''data'', ''p1'', ''CBCT'', ''scan1.nrrd''], [''data'', ''p1'', ''CT'', ''CT.nrrd''],
          arr (truncate_CBCT_based_on_fov_spec (- 1024) (vol_sub small_body_scan 1024)),
          arr tissue_CT, [], [])"
proof -
  have l1: "train_load [''data'', ''p1'', ''CBCT'', ''scan1.nrrd''] = small_body_scan"
    and l2: "train_load [''data'', ''p1'', ''CT'', ''CT.nrrd''] = tissue_CT"
    by (simp_all add: train_load_def)
  have s1: "\<not> is_volume_smaller_than small_body_scan [2, 2, 2]"
    and s2: "\<not> is_volume_smaller_than tissue_CT [2, 2, 2]"
    and s3: "\<not> is_volume_smaller_than
                 (truncate_CBCT_based_on_fov_spec (- 1024) (vol_sub small_body_scan 1024)) [2, 2, 2]"
    by (simp_all add: is_volume_smaller_than_def small_fov not_smaller_3)
       (simp_all add: small_body_scan_def tissue_CT_def scan_of_def smaller_than_def)
  have guard: "load_and_guard env train_ds [[''data'', ''p1'', ''CBCT'', ''scan1.nrrd'']]
                 [[''data'', ''p1'', ''CT'', ''CT.nrrd'']]
                 [''data'', ''p1'', ''CBCT'', ''scan1.nrrd''] [''data'', ''p1'', ''CT'', ''CT.nrrd''] []
               = Inr (small_body_scan, tissue_CT, [])"
    by (simp add: load_and_guard_def train_ds_fields ld l1 l2 size_invalid_check_and_replace_def
        replace_loop_valid s1 s2 Let_def)
  have reg: "truncate_and_register env train_ds small_body_scan tissue_CT
               = Inr (arr (truncate_CBCT_based_on_fov_spec (- 1024) (vol_sub small_body_scan 1024)),
                      arr tissue_CT, [])"
    by (simp add: truncate_and_register_def train_ds_fields tr rg s2 s3 Let_def get_npy_def)
  show ?thesis
    by (simp add: prepare_def train_pick guard reg)
qed


lemma one_voxel_body:
  assumes "shape a = [3, 3, 3]"
    and "\<And>z y x. elem a [z, y, x] = (if [z, y, x] = [1, 1, 1] then 1000 else - 900)"
  shows "\<exists>a'. apply_body_mask_and_bound_spec a am True (- 700) = Inr a' \<and> shape a' = [1, 1, 1]"
proof -
  have "snd (get_body_mask_and_bound_spec a (- 700)) = ((1, 2), (1, 2), (1, 2))"
    by (simp add: get_body_mask_and_bound_spec_def assms bounding_box_def foreground_range_def
        upt_0_3 Let_def)
  then show ?thesis
    by (simp add: apply_body_mask_and_bound_spec_def Let_def bounds_list_def getitem_slices_def
        np_where_def assms slice_len_def)
qed

lemma all_tissue:
  assumes "shape b = [3, 3, 3]"
    and "\<And>z y x. elem b [z, y, x] = 0"
  shows "\<exists>b'. apply_body_mask_and_bound_spec b am True (- 300) = Inr b' \<and> shape b' = [3, 3, 3]"
proof -
  have "snd (get_body_mask_and_bound_spec b (- 300)) = ((0, 3), (0, 3), (0, 3))"
    by (simp add: get_body_mask_and_bound_spec_def assms bounding_box_def foreground_range_def
        upt_0_3 Let_def)
  then show ?thesis
    by (simp add: apply_body_mask_and_bound_spec_def Let_def bounds_list_def getitem_slices_def
        np_where_def assms slice_len_def)
qed

text \<open>
  C1 on a concrete item under the replace policy with bounding on: the CBCT and the CT
  are 3 x 3 x 3 voxels, so both pass every size check against the patch of 2 x 2 x 2
  (lines 96-100, 113 and 125), the body of the CBCT is one voxel, and the CBCT array
  handed to the patch sampler at line 174 is 1 x 1 x 1, smaller than the patch on every
  axis: no check follows the bounding of lines 139-150.
\<close>

theorem bounding_undoes_the_size_guard:
  "\<not> pad train_ds \<and> apply_bound train_ds \<and> patch_size train_ds = [2, 2, 2]
   \<and> GetSize (train_load [''data'', ''p1'', ''CBCT'', ''scan1.nrrd'']) = [3, 3, 3]
   \<and> GetSize (train_load [''data'', ''p1'', ''CT'', ''CT.nrrd'']) = [3, 3, 3]
   \<and> map_sum id (shape \<circ> fst) (sampler_inputs (spec_env train_load) train_ds 0 []) = Inr [1, 1, 1]
   \<and> map_sum id (shape \<circ> fst \<circ> snd) (sampler_inputs (spec_env train_load) train_ds 0 [])
        = Inr [3, 3, 3]
   \<and> smaller_than [1, 1, 1] (patch_size train_ds)"
proof -
  let ?a = "arr (truncate_CBCT_based_on_fov_spec (- 1024) (vol_sub small_body_scan 1024))"
  from one_voxel_body [of ?a True, OF small_fov]
  obtain a' where a': "apply_body_mask_and_bound_spec ?a True True (- 700) = Inr a'"
    "shape a' = [1, 1, 1]"
    by blast
  have "shape (arr tissue_CT) = [3, 3, 3]" "\<And>z y x. elem (arr tissue_CT) [z, y, x] = 0"
    by (simp_all add: tissue_CT_def scan_of_def)
  from all_tissue [of "arr tissue_CT" True, OF this]
  obtain b' where b': "apply_body_mask_and_bound_spec (arr tissue_CT) True True (- 300) = Inr b'"
    "shape b' = [3, 3, 3]"
    by blast
  have "sampler_inputs (spec_env train_load) train_ds 0 [] = Inr (a', b', [], [])"
    by (simp add: sampler_inputs_def train_prepare spec_env_fields try_mask_and_bound_def
        train_ds_fields a' b' pad_if_enabled_def Let_def)
  then show ?thesis
    by (simp add: a' b' train_ds_fields smaller_than_def GetSize_def train_load_def
        small_body_scan_def tissue_CT_def scan_of_def)
qed

text \<open>
  Under the pad policy the guard does follow the bounding (lines 153-155): with the
  padder of the spec, both arrays handed to the patch sampler are no smaller than the
  patch.
\<close>

lemma pad_spec_not_smaller: "\<not> smaller_than (shape (pad_spec ps a)) ps"
proof -
  have "\<not> list_ex (\<lambda>(d, k). d < k) (zip (map2 max shp ps @ drop (length ps) shp) ps)"
    for shp :: "nat list"
  proof (induction ps arbitrary: shp)
    case Nil
    then show ?case by simp
  next
    case (Cons k ks)
    then show ?case by (cases shp) auto
  qed
  then show ?thesis
    by (simp add: smaller_than_def pad_spec_def)
qed

lemma pad_policy_guards_after_bounding:
  assumes "pad ds" "data_utils_pad env = pad_spec"
    and "sampler_inputs env ds index g = Inr (a, b, lg, g')"
  shows "\<not> smaller_than (shape a) (patch_size ds) \<and> \<not> smaller_than (shape b) (patch_size ds)"
  using assms
  by (auto simp: sampler_inputs_def pad_if_enabled_def Let_def pad_spec_not_smaller
      split: sum.splits)

subsection \<open>The two error paths on concrete items\<close>

lemma focal_interval_fifth_1: "focal_interval (1 / 5) (Suc 0) = (0, 0)"
  by (simp add: focal_interval_def)

lemma train_patch_pair:
  assumes "shape a = [3, 3, 3]" "shape b = [3, 3, 3]"
  shows "\<exists>pa pb. get_patch_pair (patch_sampler train_ds) a b [] = Inr ((pa, pb), [])
           \<and> shape pa = [2, 2, 2] \<and> shape pb = [2, 2, 2]
           \<and> (\<forall>z y x. elem pa [z, y, x] = elem a [z, y, x])
           \<and> (\<forall>z y x. elem pb [z, y, x] = elem b [z, y, x])"
  by (simp add: get_patch_pair_def train_ds_fields assms not_smaller_3 Let_def
      focal_interval_fifth_1 patch_at_def getitem_slices_def slice_len_def slice_start_def)

theorem masking_failure_is_logged_and_skipped_witness:
  "fst (getitem failing_mask_env train_ds 0 [])
     = [LogError ''Error applying mask and bound in file : ''
          [''data'', ''p1'', ''CBCT'', ''scan1.nrrd''],
        LogError ''Error applying mask and bound in file : ''
          [''data'', ''p1'', ''CT'', ''CT.nrrd'']]
   \<and> map_sum id (shape \<circ> fst \<circ> fst) (snd (getitem failing_mask_env train_ds 0 []))
       = Inr [1, 2, 2, 2]
   \<and> map_sum id (shape \<circ> snd \<circ> fst) (snd (getitem failing_mask_env train_ds 0 []))
       = Inr [1, 2, 2, 2]
   \<and> map_sum id (\<lambda>r. elem (fst (fst r)) [0, 0, 0, 0]) (snd (getitem failing_mask_env train_ds 0 []))
       = Inr (- 353 / 384)"
proof -
  let ?a = "arr (truncate_CBCT_based_on_fov_spec (- 1024) (vol_sub small_body_scan 1024))"
  let ?b = "arr tissue_CT"
  note prep = train_prepare [of failing_mask_env, OF failing_env_fields(1-3)]
  have raise: "apply_body_mask_and_bound failing_mask_env ?a (apply_mask train_ds)
                 (apply_bound train_ds) (cbct_mask_threshold train_ds)
               = Inl (CollaboratorError ''degenerate volume'')"
    by (simp add: failing_env_fields)
  have tryb: "try_mask_and_bound failing_mask_env train_ds (- 300)
                [''data'', ''p1'', ''CT'', ''CT.nrrd''] ?b
              = (?b, [LogError ''Error applying mask and bound in file : ''
                        [''data'', ''p1'', ''CT'', ''CT.nrrd'']])"
    by (simp add: try_mask_and_bound_def failing_env_fields)
  from masking_failure_is_logged_and_skipped [OF prep, of "CollaboratorError ''degenerate volume''"]
    raise
  have run: "getitem failing_mask_env train_ds 0 [] =
          ([LogError ''Error applying mask and bound in file : ''
              [''data'', ''p1'', ''CBCT'', ''scan1.nrrd''],
            LogError ''Error applying mask and bound in file : ''
              [''data'', ''p1'', ''CT'', ''CT.nrrd'']],
           sample_and_normalize train_ds ?a ?b [])"
    by (simp add: tryb pad_if_enabled_def train_ds_fields)
  have "shape ?b = [3, 3, 3]"
    by (simp add: tissue_CT_def scan_of_def)
  from train_patch_pair [OF small_fov(1) this]
  obtain pa pb where pp: "get_patch_pair (patch_sampler train_ds) ?a ?b [] = Inr ((pa, pb), [])"
    "shape pa = [2, 2, 2]" "shape pb = [2, 2, 2]"
    "\<And>z y x. elem pa [z, y, x] = elem ?a [z, y, x]"
    by blast
  show ?thesis
    unfolding run
    by (simp add: sample_and_normalize_def pp to_tensor_def unsqueeze0_def map_nd_def
        small_fov(2) train_ds_fields(7-8) clamp_def min_max_normalize_def)
qed

lemma two_scan_pick:
  "pick_paths two_scan_ds 0 [1] =
     Inr ([[''data'', ''p1'', ''CBCT'', ''scan1.nrrd''], [''data'', ''p1'', ''CBCT'', ''scan2.nrrd'']],
          [[''data'', ''p1'', ''CT'', ''CT.nrrd'']],
          [''data'', ''p1'', ''CBCT'', ''scan2.nrrd''], [''data'', ''p1'', ''CT'', ''CT.nrrd''], [])"
  by (simp add: pick_paths_def two_scan_ds_def train_ds_def choice_def Let_def)

theorem getitem_raises_when_candidates_exhausted_witness:
  "\<not> pad two_scan_ds
   \<and> is_volume_smaller_than tiny_scan (patch_size two_scan_ds)
   \<and> getitem (spec_env (\<lambda>p. tiny_scan)) two_scan_ds 0 [1]
       = ([], Inl (RuntimeError ''Suitable replacement volume could not be found!''))"
proof -
  have np: "\<not> pad two_scan_ds"
    by (simp add: two_scan_ds_def train_ds_def)
  have sm: "is_volume_smaller_than tiny_scan (patch_size two_scan_ds)"
    by (simp add: is_volume_smaller_than_def smaller_than_def tiny_scan_def scan_of_def
        two_scan_ds_def train_ds_def)
  then have "(\<forall>p \<in> set [[''data'', ''p1'', ''CBCT'', ''scan1.nrrd''],
                           [''data'', ''p1'', ''CBCT'', ''scan2.nrrd'']].
               is_volume_smaller_than (load (spec_env (\<lambda>p. tiny_scan)) p) (patch_size two_scan_ds))
           \<or> (\<forall>p \<in> set [[''data'', ''p1'', ''CT'', ''CT.nrrd'']].
               is_volume_smaller_than (load (spec_env (\<lambda>p. tiny_scan)) p) (patch_size two_scan_ds))"
    by (simp add: spec_env_fields)
  from getitem_raises_when_candidates_exhausted [OF np two_scan_pick this] np sm
  show ?thesis by simp
qed

section \<open>The Stochastic Focal Patch Sampler at proportion 0\<close>

lemma focal_interval_zero: "focal_interval 0 R = (R div 2, R div 2)"
proof -
  have "\<lfloor>real R / 2\<rfloor> = int (R div 2)"
    by (simp add: floor_divide_of_nat_eq [of R 2, simplified])
  then show ?thesis
    by (simp add: focal_interval_def)
qed

lemma sample_offsets_zero: "fst (sample_offsets 0 Rs g) = map (\<lambda>R. R div 2) Rs"
  by (induction Rs arbitrary: g) (simp_all add: focal_interval_zero)

lemma center_offsets_eq:
  "map (\<lambda>R. R div 2) (map2 (-) shp ps) = center_offsets shp ps"
  by (auto simp: center_offsets_def)

lemma center_patch_shape:
  "length shp = length ps \<Longrightarrow> \<not> smaller_than shp ps \<Longrightarrow>
   map2 slice_len shp (map2 (\<lambda>k n. (k, k + n)) (center_offsets shp ps) ps) = ps"
proof (induction shp ps rule: list_induct2)
  case Nil
  then show ?case by (simp add: center_offsets_def)
next
  case (Cons d ds k ks)
  then have kd: "k \<le> d" and rest: "\<not> smaller_than ds ks"
    by (simp_all add: smaller_than_def)
  have "(d - k) div 2 \<le> d - k"
    by simp
  with kd have "(d - k) div 2 + k \<le> d" "(d - k) div 2 \<le> d"
    by linarith+
  with Cons.IH rest show ?case
    by (simp add: center_offsets_def slice_len_def min_def)
qed

lemma patch_at_center:
  assumes "length (shape a) = length ps" "\<not> smaller_than (shape a) ps"
  shows "\<exists>pa. patch_at (center_offsets (shape a) ps) ps a = Inr pa \<and> shape pa = ps"
  using assms center_patch_shape [OF assms]
  by (simp add: patch_at_def getitem_slices_def center_offsets_def)

text \<open>
  C5. With focal proportion 0, for two volumes of one shape that are no smaller than
  the patch on any axis, and for every state of the random generator: the offsets drawn
  are the centre offsets of the valid range on every axis, and \<^verbatim>\<open>get_patch_pair\<close>
  returns the patches of both volumes at that one offset triple, each of the patch's
  shape.
\<close>

theorem center_patch_when_proportion_zero:
  assumes p0: "focal_region_proportion s = 0"
    and same: "shape A = shape B"
    and rank: "length (shape A) = length (sampler_patch_size s)"
    and fits: "\<not> smaller_than (shape A) (sampler_patch_size s)"
  shows "fst (sample_offsets (focal_region_proportion s)
                (map2 (-) (shape A) (sampler_patch_size s)) g)
           = center_offsets (shape A) (sampler_patch_size s)
       \<and> (\<exists>pa pb g'. get_patch_pair s A B g = Inr ((pa, pb), g')
             \<and> patch_at (center_offsets (shape A) (sampler_patch_size s)) (sampler_patch_size s) A
                 = Inr pa
             \<and> patch_at (center_offsets (shape A) (sampler_patch_size s)) (sampler_patch_size s) B
                 = Inr pb
             \<and> shape pa = sampler_patch_size s \<and> shape pb = sampler_patch_size s)"
proof -
  let ?ps = "sampler_patch_size s"
  have off: "fst (sample_offsets (focal_region_proportion s) (map2 (-) (shape A) ?ps) g)
               = center_offsets (shape A) ?ps"
    by (simp only: p0 sample_offsets_zero center_offsets_eq)
  from patch_at_center [OF rank fits]
  obtain pa where pa: "patch_at (center_offsets (shape A) ?ps) ?ps A = Inr pa" "shape pa = ?ps"
    by blast
  from patch_at_center [of B ?ps] rank fits same
  obtain pb where pb: "patch_at (center_offsets (shape A) ?ps) ?ps B = Inr pb" "shape pb = ?ps"
    by auto
  have rankB: "length (shape B) = length ?ps" and fitsB: "\<not> smaller_than (shape B) ?ps"
    using rank fits same by simp_all
  have "get_patch_pair s A B g
          = Inr ((pa, pb), snd (sample_offsets (focal_region_proportion s)
                                  (map2 (-) (shape A) ?ps) g))"
    by (simp add: get_patch_pair_def Let_def off pa pb rank fits rankB fitsB)
  with off pa pb show ?thesis by blast
qed

theorem center_patch_when_proportion_zero_witness:
  "center_offsets (shape coded_volume) (sampler_patch_size center_sampler) = [1, 1, 1]
   \<and> (\<exists>pa pb g'. get_patch_pair center_sampler coded_volume coded_volume [17, 4, 9] = Inr ((pa, pb), g')
         \<and> shape pa = [2, 2, 2] \<and> shape pb = [2, 2, 2]
         \<and> elem pa [0, 0, 0] = 111 \<and> elem pb [0, 0, 0] = 111
         \<and> elem pa [1, 0, 1] = 212)"
proof -
  have c: "center_offsets (shape coded_volume) (sampler_patch_size center_sampler) = [1, 1, 1]"
    by (simp add: center_offsets_def coded_volume_def center_sampler_def)
  have h: "focal_region_proportion center_sampler = 0"
    "length (shape coded_volume) = length (sampler_patch_size center_sampler)"
    "\<not> smaller_than (shape coded_volume) (sampler_patch_size center_sampler)"
    by (simp_all add: center_sampler_def coded_volume_def smaller_than_def)
  from center_patch_when_proportion_zero [OF h(1) refl h(2) h(3), of "[17, 4, 9]"]
  obtain pa pb g' where
    run: "get_patch_pair center_sampler coded_volume coded_volume [17, 4, 9] = Inr ((pa, pb), g')"
    and pa: "patch_at [1, 1, 1] (sampler_patch_size center_sampler) coded_volume = Inr pa"
    and pb: "patch_at [1, 1, 1] (sampler_patch_size center_sampler) coded_volume = Inr pb"
    and sh: "shape pa = sampler_patch_size center_sampler" "shape pb = sampler_patch_size center_sampler"
    unfolding c by blast
  have "patch_at [1, 1, 1] (sampler_patch_size center_sampler) coded_volume = Inr p \<Longrightarrow>
        elem p [0, 0, 0] = 111 \<and> elem p [1, 0, 1] = 212" for p
    by (auto simp: patch_at_def getitem_slices_def center_sampler_def coded_volume_def
        slice_start_def)
  with pa pb have "elem pa [0, 0, 0] = 111" "elem pb [0, 0, 0] = 111" "elem pa [1, 0, 1] = 212"
    by blast+
  with run sh c show ?thesis
    by (auto simp: center_sampler_def)
qed

section \<open>Construction of the training dataset\<close>

text \<open>
  The constructor has no check of its own for a case that misses a modality directory.
  Once the root directory is listed, it raises exactly when
  \<^verbatim>\<open>make_recursive_dataset_of_files\<close> raises on the \<^verbatim>\<open>CBCT\<close> or the \<^verbatim>\<open>CT\<close> path
  of some entry of the root.
\<close>

lemma scan_patients_raises_iff:
  "(\<exists>e. scan_patients fs ps acc = Inl e) \<longleftrightarrow>
   (\<exists>patient \<in> set ps.
      (\<exists>e. make_recursive_dataset_of_files fs (patient @ [''CBCT'']) EXTENSIONS = Inl e)
      \<or> (\<exists>e. make_recursive_dataset_of_files fs (patient @ [''CT'']) EXTENSIONS = Inl e))"
proof (induction ps arbitrary: acc)
  case Nil
  then show ?case by simp
next
  case (Cons q qs)
  then show ?case
    by (cases "make_recursive_dataset_of_files fs (q @ [''CBCT'']) EXTENSIONS";
        cases "make_recursive_dataset_of_files fs (q @ [''CT'']) EXTENSIONS") auto
qed

text \<open>
  The assertion of lines 60-61 holds whenever it is reached: the loop gives both
  dictionaries the same keys.
\<close>

lemma dict_set_keys:
  "map fst (dict_set d k v) = (if k \<in> set (map fst d) then map fst d else map fst d @ [k])"
  by (induction d) (auto simp: rev_image_eqI)

lemma scan_patients_same_keys:
  "scan_patients fs ps acc = Inr acc' \<Longrightarrow> map fst (fst acc) = map fst (snd acc) \<Longrightarrow>
   map fst (fst acc') = map fst (snd acc')"
proof (induction ps arbitrary: acc)
  case Nil
  then show ?case by simp
next
  case (Cons q qs)
  from Cons.prems(1) obtain cbct ct where
    "scan_patients fs qs
       (dict_set (fst acc) (stem q) cbct,
        dict_set (snd acc) (stem q) (filter (\<lambda>p. stem p = ''CT'') ct)) = Inr acc'"
    by (auto split: sum.splits)
  from Cons.IH [OF this] Cons.prems(2) show ?case
    by (simp add: dict_set_keys)
qed

lemma init_assert_always_holds:
  assumes "scan_patients fs (iterdir fs (conf_root conf)) ([], []) = Inr (pc, pt)"
  shows "length pc = length pt"
  using scan_patients_same_keys [OF assms] by (auto dest: arg_cong [where f = length])

lemma init_raises_iff_lister_raises:
  assumes "is_dir fs (conf_root conf)"
  shows "(\<exists>e. CBCTtoCTDataset_init fs conf = Inl e) \<longleftrightarrow>
   (\<exists>patient \<in> set (iterdir fs (conf_root conf)).
      (\<exists>e. make_recursive_dataset_of_files fs (patient @ [''CBCT'']) EXTENSIONS = Inl e)
      \<or> (\<exists>e. make_recursive_dataset_of_files fs (patient @ [''CT'']) EXTENSIONS = Inl e))"
proof (cases "scan_patients fs (iterdir fs (conf_root conf)) ([], [])")
  case (Inl e)
  then have "\<exists>e. CBCTtoCTDataset_init fs conf = Inl e"
    using assms by (simp add: CBCTtoCTDataset_init_def)
  moreover from Inl have "\<exists>e. scan_patients fs (iterdir fs (conf_root conf)) ([], []) = Inl e"
    by blast
  ultimately show ?thesis
    by (simp only: scan_patients_raises_iff)
next
  case (Inr r)
  obtain pc pt where r: "r = (pc, pt)"
    by (cases r)
  from Inr r have "length pc = length pt"
    by (simp add: init_assert_always_holds)
  with Inr r assms have "\<not> (\<exists>e. CBCTtoCTDataset_init fs conf = Inl e)"
    by (simp add: CBCTtoCTDataset_init_def)
  moreover from Inr have "\<not> (\<exists>e. scan_patients fs (iterdir fs (conf_root conf)) ([], []) = Inl e)"
    by simp
  ultimately show ?thesis
    by (simp only: scan_patients_raises_iff)
qed

section \<open>NpyUnaligned3dDataset.__getitem__\<close>

text \<open>
  C10. For every index, \<^verbatim>\<open>NpyUnaligned3dDataset.__getitem__\<close> never returns the
  dictionary \<open>{'A', 'B'}\<close>: whenever the steps before the bare \<^verbatim>\<open>return\<close> of line 53
  (loading, patch extraction, normalization, the debug images) raise nothing, it
  returns \<^verbatim>\<open>None\<close>.
\<close>

theorem npy_getitem_returns_None:
  "(\<forall>d g'. npy_getitem env ds index g \<noteq> Inr (Some d, g'))
   \<and> (A_paths ds \<noteq> [] \<and> B_paths ds \<noteq> []
      \<and> np_load env (A_paths ds ! (index mod A_size ds)) = Inr A0
      \<and> np_load env (B_paths ds ! (fst (draw g) mod B_size ds)) = Inr B0
      \<and> npy_get_patch_pair env A0 B0 (snd (draw g)) = Inr ((A1, B1), g1)
      \<and> map_of (norm_A ds) ''min'' = Some a_min \<and> map_of (norm_A ds) ''max'' = Some a_max
      \<and> map_of (norm_B ds) ''min'' = Some b_min \<and> map_of (norm_B ds) ''max'' = Some b_max
      \<and> save_slices (imsave env) ''A'' (normalize_from_hu env A1 a_min a_max) = None
      \<and> save_slices (imsave env) ''B'' (normalize_from_hu env B1 b_min b_max) = None
      \<longrightarrow> npy_getitem env ds index g = Inr (None, g1))"
proof
  show "\<forall>d g'. npy_getitem env ds index g \<noteq> Inr (Some d, g')"
    by (auto simp: npy_getitem_def split: sum.splits option.splits prod.splits)
next
  show "A_paths ds \<noteq> [] \<and> B_paths ds \<noteq> []
      \<and> np_load env (A_paths ds ! (index mod A_size ds)) = Inr A0
      \<and> np_load env (B_paths ds ! (fst (draw g) mod B_size ds)) = Inr B0
      \<and> npy_get_patch_pair env A0 B0 (snd (draw g)) = Inr ((A1, B1), g1)
      \<and> map_of (norm_A ds) ''min'' = Some a_min \<and> map_of (norm_A ds) ''max'' = Some a_max
      \<and> map_of (norm_B ds) ''min'' = Some b_min \<and> map_of (norm_B ds) ''max'' = Some b_max
      \<and> save_slices (imsave env) ''A'' (normalize_from_hu env A1 a_min a_max) = None
      \<and> save_slices (imsave env) ''B'' (normalize_from_hu env B1 b_min b_max) = None
      \<longrightarrow> npy_getitem env ds index g = Inr (None, g1)"
    by (simp add: npy_getitem_def A_size_def B_size_def)
qed

theorem npy_getitem_returns_None_witness:
  "npy_getitem npy_env npy_ds 3 [5] = Inr (None, [])"
proof -
  have "save_slices (imsave npy_env) tag (normalize_from_hu npy_env a lo hi) = None"
    if "shape a = [2, 2, 2]" for tag a lo hi
    using that by (simp add: save_slices_def npy_env_def upt_rec)
  then show ?thesis
    using npy_getitem_returns_None [of npy_env npy_ds 3 "[5]"
        "\<lparr>shape = [2, 2, 2], elem = (\<lambda>i. 0)\<rparr>" "\<lparr>shape = [2, 2, 2], elem = (\<lambda>i. 0)\<rparr>"
        "\<lparr>shape = [2, 2, 2], elem = (\<lambda>i. 0)\<rparr>" "\<lparr>shape = [2, 2, 2], elem = (\<lambda>i. 0)\<rparr>"
        "[]" "- 1000" 1000 "- 1000" 1000]
    by (simp add: npy_env_def npy_ds_def A_size_def B_size_def)
qed

end
